theory Spec2Isabelle
  imports
    Complex_Main
    "HOL-Library.Char_ord"
    "HOL-Library.List_Lexorder"
    "HOL-Library.Product_Lexorder"
    "HOL-Library.Multiset"
begin

section \<open>Values, errors and library routines\<close>

text \<open>
  The script \<^verbatim>\<open>Investigate_a_Dataset.py\<close> is a linear sequence of pandas calls over two
  CSV files. A floating-point value is modelled as an exact rational or the missing-value
  marker; infinities, signed zeros and rounding are outside the model. An integer column
  holds \<open>int\<close>; where the script adds or subtracts the values of an int64 column, the
  wrap-around is written out. A cell of an untyped (object) column is a string or a float.
\<close>

datatype flt = Val rat | NaN

datatype cell = Str string | Flt flt

text \<open>
  The exceptions the script's calls can raise. \<open>SchemaError\<close> is the name the specification
  uses; no statement of the script raises it. \<open>Unsupported\<close> marks a pandas behaviour
  that the model does not follow (a label that occurs twice makes \<^verbatim>\<open>df[label]\<close> a
  sub-table); the model stops there instead of inventing a result.
\<close>

datatype error =
    IndexError
  | KeyError string
  | ValueError
  | AttributeError string
  | TypeError
  | SchemaError string
  | Unsupported

definition and_then :: "error + 'a \<Rightarrow> ('a \<Rightarrow> error + 'b) \<Rightarrow> error + 'b" where
  "and_then m f = (case m of Inl e \<Rightarrow> Inl e | Inr x \<Rightarrow> f x)"

fun each :: "('a \<Rightarrow> error + 'b) \<Rightarrow> 'a list \<Rightarrow> error + 'b list" where
  "each f [] = Inr []"
| "each f (x # xs) =
     (case f x of
        Inl e \<Rightarrow> Inl e
      | Inr y \<Rightarrow> (case each f xs of Inl e \<Rightarrow> Inl e | Inr ys \<Rightarrow> Inr (y # ys)))"

text \<open>
  The parsers of Python and pandas are library code. The development is parametric in
  them: \<open>py_float\<close> is \<^verbatim>\<open>float(s)\<close>, \<open>py_int\<close> is \<^verbatim>\<open>int(s)\<close>, \<open>pd_to_numeric\<close> is
  what \<^verbatim>\<open>pd.to_numeric\<close> reads from one string, \<open>pd_datetime\<close> is the (year, month) that
  \<^verbatim>\<open>pd.DatetimeIndex\<close> reads from one string; \<open>None\<close> is the parser's exception.
\<close>

record pylib =
  py_float :: "string \<Rightarrow> flt option"
  py_int :: "string \<Rightarrow> int option"
  pd_to_numeric :: "string \<Rightarrow> flt option"
  pd_datetime :: "string \<Rightarrow> (int \<times> int) option"

fun flt_mul :: "flt \<Rightarrow> flt \<Rightarrow> flt" where
  "flt_mul (Val a) (Val b) = Val (a * b)"
| "flt_mul _ _ = NaN"

fun flt_add :: "flt \<Rightarrow> flt \<Rightarrow> flt" where
  "flt_add (Val a) (Val b) = Val (a + b)"
| "flt_add _ _ = NaN"

fun flt_div :: "flt \<Rightarrow> rat \<Rightarrow> flt" where
  "flt_div (Val a) d = Val (a / d)"
| "flt_div NaN d = NaN"

text \<open>\<^verbatim>\<open>int(x)\<close> of a float truncates toward zero.\<close>

definition int_of_float :: "rat \<Rightarrow> int" where
  "int_of_float q = (if 0 \<le> q then \<lfloor>q\<rfloor> else \<lceil>q\<rceil>)"

text \<open>\<^verbatim>\<open>Series.mean()\<close> of a float column skips missing values; of nothing it is NaN.\<close>

fun present :: "flt list \<Rightarrow> rat list" where
  "present [] = []"
| "present (Val v # xs) = v # present xs"
| "present (NaN # xs) = present xs"

definition series_mean :: "flt list \<Rightarrow> flt" where
  "series_mean xs =
     (let vs = present xs
      in if vs = [] then NaN else Val (sum_list vs / of_nat (length vs)))"

text \<open>
  Arithmetic of two Series aligns them on their index. Both operands below carry the
  default index 0, 1, 2, ...: the result has the longer index, with NaN where one side
  has no entry.
\<close>

fun series_mul :: "flt list \<Rightarrow> flt list \<Rightarrow> flt list" where
  "series_mul [] ys = map (\<lambda>_. NaN) ys"
| "series_mul xs [] = map (\<lambda>_. NaN) xs"
| "series_mul (x # xs) (y # ys) = flt_mul x y # series_mul xs ys"

section \<open>The background-check table\<close>

text \<open>
  \<^verbatim>\<open>gun_data.csv\<close> as \<^verbatim>\<open>read_csv\<close> types it: the month as text, the state, the 24
  transaction-type columns at positions 2 to 25, and the integer totals (an int64 column).
\<close>

record csv_row =
  csv_month :: string
  csv_state :: string
  csv_transactions :: "flt list"
  csv_totals :: int

text \<open>The columns after the reordering and the drop of \<^verbatim>\<open>month\<close>.\<close>

record gun_row =
  month_no :: int
  year :: int
  state :: string
  totals :: int

definition territories :: "string list" where
  "territories =
     [''Guam'', ''District of Columbia'', ''Mariana Islands'', ''Puerto Rico'',
      ''Virgin Islands'']"

text \<open>
  \<^verbatim>\<open>gun.drop(gun.iloc[:, 2:26], ...)\<close> removes the transaction columns; the two
  \<^verbatim>\<open>pd.DatetimeIndex(gun['month'])\<close> calls read year and month of every row and raise
  on a month they cannot read; the columns are reordered and \<^verbatim>\<open>month\<close> dropped.
\<close>

definition split_month :: "pylib \<Rightarrow> csv_row \<Rightarrow> error + gun_row" where
  "split_month L r =
     (case pd_datetime L (csv_month r) of
        None \<Rightarrow> Inl ValueError
      | Some (y, m) \<Rightarrow>
          Inr \<lparr>month_no = m, year = y, state = csv_state r, totals = csv_totals r\<rparr>)"

text \<open>\<^verbatim>\<open>gun.drop(gun[gun.state.isin([...])].index)\<close>\<close>

definition drop_territories :: "gun_row list \<Rightarrow> gun_row list" where
  "drop_territories gun = filter (\<lambda>r. state r \<notin> set territories) gun"

definition clean_gun :: "pylib \<Rightarrow> csv_row list \<Rightarrow> error + gun_row list" where
  "clean_gun L raw = and_then (each (split_month L) raw) (\<lambda>gun. Inr (drop_territories gun))"

section \<open>Grouping\<close>

text \<open>
  Arithmetic on int64 values wraps around: \<open>int64 x\<close> is the value from -2^63 to 2^63 - 1
  that differs from \<open>x\<close> by a multiple of 2^64.
\<close>

definition int64 :: "int \<Rightarrow> int" where
  "int64 x = (x + 9223372036854775808) mod 18446744073709551616 - 9223372036854775808"

text \<open>
  \<^verbatim>\<open>groupby(key)[col].sum().reset_index()\<close> of an int64 column: one row per distinct
  key, keys in ascending order, the column summed over the rows of the key in int64.
\<close>

definition group_keys :: "('r \<Rightarrow> 'k::linorder) \<Rightarrow> 'r list \<Rightarrow> 'k list" where
  "group_keys key rs = sort (remdups (map key rs))"

definition groupby_sum :: "('r \<Rightarrow> 'k::linorder) \<Rightarrow> ('r \<Rightarrow> int) \<Rightarrow> 'r list \<Rightarrow> ('k \<times> int) list" where
  "groupby_sum key col rs =
     map (\<lambda>k. (k, int64 (sum_list (map col (filter (\<lambda>r. key r = k) rs))))) (group_keys key rs)"

text \<open>
  \<^verbatim>\<open>groupby(key)[col].mean()\<close> of an integer column: pandas converts the values to
  float64 before it adds them, so nothing wraps around.
\<close>

definition groupby_mean :: "('r \<Rightarrow> 'k::linorder) \<Rightarrow> ('r \<Rightarrow> int) \<Rightarrow> 'r list \<Rightarrow> ('k \<times> rat) list" where
  "groupby_mean key col rs =
     map (\<lambda>k. let g = filter (\<lambda>r. key r = k) rs
              in (k, of_int (sum_list (map col g)) / of_nat (length g)))
       (group_keys key rs)"

section \<open>Research questions 4 and 5\<close>

text \<open>
  \<^verbatim>\<open>years_sum = gun.groupby(['state', 'year'])['totals'].sum().reset_index()\<close>:
  rows ((state, year), totals), ascending in state and then year.
\<close>

definition years_sum :: "gun_row list \<Rightarrow> ((string \<times> int) \<times> int) list" where
  "years_sum gun = groupby_sum (\<lambda>r. (state r, year r)) totals gun"

text \<open>
  \<^verbatim>\<open>time_years = years_sum.iloc[1:19, :].groupby('year')['totals'].sum().reset_index()\<close>:
  the slice takes the rows at positions 1 to 18 of \<open>years_sum\<close>, whatever they hold.
\<close>

definition time_years :: "gun_row list \<Rightarrow> (int \<times> int) list" where
  "time_years gun = groupby_sum (\<lambda>r. snd (fst r)) snd (take 18 (drop 1 (years_sum gun)))"

text \<open>
  \<^verbatim>\<open>checks_99 = years_sum.query('year == 1999')\<close> and \<^verbatim>\<open>checks_16\<close>, each with
  \<^verbatim>\<open>set_index('state')\<close>: the state and the summed totals of one year.
\<close>

definition checks_of :: "int \<Rightarrow> gun_row list \<Rightarrow> (string \<times> int) list" where
  "checks_of y gun =
     map (\<lambda>r. (fst (fst r), snd r)) (filter (\<lambda>r. snd (fst r) = y) (years_sum gun))"

text \<open>
  A value of a numeric column: of an int64 column, or of a float64 column that holds no
  missing value.
\<close>

datatype number = Integer int | Floating rat


text \<open>
  The subtraction of two tables aligns them on their index. When the two tables have the
  same index, nothing is missing, the columns stay int64 and the difference wraps around.
  When they do not, both are laid out on the union of the two indexes, the columns become
  float64 to hold the missing values, and the difference is a float.
\<close>

definition subtract :: "bool \<Rightarrow> int \<Rightarrow> int \<Rightarrow> number" where
  "subtract same a b = (if same then Integer (int64 (a - b)) else Floating (of_int a - of_int b))"

text \<open>
  \<^verbatim>\<open>diff = (checks_16.set_index('state') - checks_99.set_index('state')).dropna(axis=0)\<close>,
  then \<^verbatim>\<open>reset_index\<close>. The result has the states of either table in ascending order,
  NaN where a state has no row in one of them, and \<^verbatim>\<open>dropna\<close> removes those. A row is
  (state, year, totals); the year column holds 2016 - 1999.
\<close>

definition diff :: "gun_row list \<Rightarrow> (string \<times> number \<times> number) list" where
  "diff gun =
     (let checks_99 = checks_of 1999 gun;
          checks_16 = checks_of 2016 gun;
          same = (map fst checks_16 = map fst checks_99);
          idx = sort (remdups (map fst checks_16 @ map fst checks_99))
      in List.map_filter
           (\<lambda>s. case (map_of checks_16 s, map_of checks_99 s) of
                  (Some a, Some b) \<Rightarrow> Some (s, subtract same 2016 1999, subtract same a b)
                | _ \<Rightarrow> None)
           idx)"





section \<open>Tables of untyped cells\<close>

text \<open>
  A table whose columns are found by label or by position: the column labels and the
  rows. \<^verbatim>\<open>read_csv\<close> fills a short row with missing values, so a cell beyond the end of
  a row reads as NaN.
\<close>

record frame =
  columns :: "cell list"
  rows :: "cell list list"

definition cell_at :: "cell list \<Rightarrow> nat \<Rightarrow> cell" where
  "cell_at r i = (if i < length r then r ! i else Flt NaN)"

definition positions :: "'a \<Rightarrow> 'a list \<Rightarrow> nat list" where
  "positions x xs = filter (\<lambda>i. xs ! i = x) [0..<length xs]"

text \<open>\<^verbatim>\<open>df[name]\<close>: KeyError when no column has the label.\<close>

definition getitem :: "frame \<Rightarrow> string \<Rightarrow> error + cell list" where
  "getitem df name =
     (case positions (Str name) (columns df) of
        [] \<Rightarrow> Inl (KeyError name)
      | [i] \<Rightarrow> Inr (map (\<lambda>r. cell_at r i) (rows df))
      | _ \<Rightarrow> Inl Unsupported)"

text \<open>Arithmetic on a column that still holds a string raises TypeError.\<close>

fun as_float :: "cell \<Rightarrow> error + flt" where
  "as_float (Flt x) = Inr x"
| "as_float (Str s) = Inl TypeError"

definition float_column :: "frame \<Rightarrow> string \<Rightarrow> error + flt list" where
  "float_column df name = and_then (getitem df name) (each as_float)"

section \<open>Research questions 1 and 2\<close>

text \<open>
  \<^verbatim>\<open>bg_checks_mean = int(gun['totals'].mean())\<close>: the mean of no rows is NaN, and
  \<^verbatim>\<open>int\<close> of NaN raises ValueError.
\<close>

definition totals_mean :: "gun_row list \<Rightarrow> rat" where
  "totals_mean gun = of_int (sum_list (map totals gun)) / of_nat (length gun)"

definition bg_checks_mean :: "gun_row list \<Rightarrow> error + int" where
  "bg_checks_mean gun = (if gun = [] then Inl ValueError else Inr (int_of_float (totals_mean gun)))"

text \<open>\<^verbatim>\<open>census[name].mean() * bg_checks_mean\<close>\<close>

definition estimate :: "frame \<Rightarrow> int \<Rightarrow> string \<Rightarrow> error + flt" where
  "estimate census bg name =
     and_then (float_column census name) (\<lambda>xs. Inr (flt_mul (series_mean xs) (Val (of_int bg))))"

definition ethnicity_fields :: "string list" where
  "ethnicity_fields =
     [''black_or_african_american_alone'', ''asian_alone'',
      ''native_hawaiian_and_other_pacific_islander_alone'', ''hispanic_or_latino'',
      ''american_indian_and_alaska_native_alone'', ''two_or_more_races'',
      ''white_alone_mean'']"

definition education_fields :: "string list" where
  "education_fields = [''high_school_graduate_or_higher'', ''bachelor's_degree_or_higher'']"

text \<open>
  The heights of the two bar charts: \<^verbatim>\<open>[african, asian, hawaiian, hispanic, native_a,
  two_plus, white]\<close> and \<^verbatim>\<open>[diploma, bachelors]\<close>.
\<close>

definition ethnicity_heights :: "frame \<Rightarrow> gun_row list \<Rightarrow> error + flt list" where
  "ethnicity_heights census gun =
     and_then (bg_checks_mean gun) (\<lambda>bg. each (estimate census bg) ethnicity_fields)"

definition education_heights :: "frame \<Rightarrow> gun_row list \<Rightarrow> error + flt list" where
  "education_heights census gun =
     and_then (bg_checks_mean gun) (\<lambda>bg. each (estimate census bg) education_fields)"

section \<open>Research question 3\<close>

text \<open>
  \<^verbatim>\<open>state_checks = gun.loc[:, ['state', 'totals']].groupby('state').mean()\<close>: one row per
  state, ascending, indexed by the state.
\<close>

definition state_checks :: "gun_row list \<Rightarrow> (string \<times> rat) list" where
  "state_checks gun = groupby_mean state totals gun"

text \<open>
  \<^verbatim>\<open>merged = pd.merge(state_checks, census, on='state', how='inner')\<close>: the rows of
  \<open>state_checks\<close> in their order, each paired with the Census rows of the same state; the
  result is numbered 0, 1, 2, ... anew. A merged row is kept as the pair of its two halves.
\<close>

definition merge_inner :: "(string \<times> rat) list \<Rightarrow> frame \<Rightarrow> error + ((string \<times> rat) \<times> cell list) list" where
  "merge_inner left census =
     (case positions (Str ''state'') (columns census) of
        [] \<Rightarrow> Inl (KeyError ''state'')
      | [i] \<Rightarrow>
          Inr (concat (map (\<lambda>l. map (\<lambda>r. (l, r))
                                  (filter (\<lambda>r. cell_at r i = Str (fst l)) (rows census)))
                         left))
      | _ \<Rightarrow> Inl Unsupported)"

text \<open>
  \<^verbatim>\<open>state_checks_mean = census['persons_in_poverty']*merged['totals']\<close> multiplies a
  column of \<open>census\<close> with a column of \<open>merged\<close>: two Series, each numbered from 0, aligned
  on that number. \<^verbatim>\<open>percent_poverty = census['persons_in_poverty']*100\<close>.
\<close>

definition state_checks_mean :: "frame \<Rightarrow> gun_row list \<Rightarrow> error + flt list" where
  "state_checks_mean census gun =
     and_then (merge_inner (state_checks gun) census) (\<lambda>merged.
     and_then (float_column census ''persons_in_poverty'') (\<lambda>pov.
       Inr (series_mul pov (map (\<lambda>m. Val (snd (fst m))) merged))))"

definition percent_poverty :: "frame \<Rightarrow> error + flt list" where
  "percent_poverty census =
     and_then (float_column census ''persons_in_poverty'')
       (\<lambda>pov. Inr (map (\<lambda>p. flt_mul p (Val 100)) pov))"

section \<open>The Census table\<close>

text \<open>
  \<^verbatim>\<open>census_data.csv\<close> is read as a \<open>frame\<close>: its column labels are \<^verbatim>\<open>Fact\<close>,
  \<^verbatim>\<open>Fact Note\<close> and one label per state, its rows are the facts.
\<close>

subsection \<open>Duplicates\<close>

text \<open>
  \<^verbatim>\<open>duplicated()\<close> marks a row that equals an earlier row; \<^verbatim>\<open>drop_duplicates\<close> keeps
  the rows that are not marked. Two missing values in the same column count as equal.
\<close>

fun unseen :: "'a list \<Rightarrow> 'a list \<Rightarrow> 'a list" where
  "unseen seen [] = []"
| "unseen seen (x # xs) = (if x \<in> set seen then unseen seen xs else x # unseen (x # seen) xs)"

definition drop_duplicates :: "'a list \<Rightarrow> 'a list" where
  "drop_duplicates xs = unseen [] xs"

text \<open>\<^verbatim>\<open>print(gun.duplicated().sum())\<close>: the number of marked rows.\<close>

definition duplicated_sum :: "'a list \<Rightarrow> nat" where
  "duplicated_sum xs = length xs - length (drop_duplicates xs)"

definition census_drop_duplicates :: "frame \<Rightarrow> frame" where
  "census_drop_duplicates df = df\<lparr>rows := drop_duplicates (rows df)\<rparr>"

subsection \<open>Orientation\<close>

text \<open>
  \<^verbatim>\<open>census = census.T\<close> makes every column of the file a row, labelled by the column's
  label. \<^verbatim>\<open>census.columns = census.iloc[0]\<close> takes the first of these rows (the facts'
  names) as the column labels; there is no first row when the file has no column.
\<close>

record indexed_frame = frame +
  index :: "cell list"

definition transpose_promote :: "frame \<Rightarrow> error + indexed_frame" where
  "transpose_promote df =
     (if columns df = [] then Inl IndexError
      else Inr \<lparr>columns = map (\<lambda>r. cell_at r 0) (rows df),
                rows = map (\<lambda>j. map (\<lambda>r. cell_at r j) (rows df)) [0..<length (columns df)],
                index = columns df\<rparr>)"

text \<open>\<^verbatim>\<open>census.drop(census.index[0:2])\<close> drops the rows that carry one of the first two labels.\<close>

definition drop_leading :: "indexed_frame \<Rightarrow> indexed_frame" where
  "drop_leading df =
     (let kept = filter (\<lambda>p. fst p \<notin> set (take 2 (index df))) (zip (index df) (rows df))
      in df\<lparr>rows := map snd kept, index := map fst kept\<rparr>)"

text \<open>
  \<^verbatim>\<open>census.reset_index(drop = False, inplace = True)\<close> turns the row labels into a first
  column named \<^verbatim>\<open>index\<close> (\<^verbatim>\<open>level_0\<close> when a column \<^verbatim>\<open>index\<close> exists already, and
  a ValueError when that exists too); \<^verbatim>\<open>census.rename(columns = {'index':'State'})\<close>.
\<close>

definition reset_index :: "indexed_frame \<Rightarrow> error + frame" where
  "reset_index df =
     (let name = (if Str ''index'' \<in> set (columns df) then ''level_0'' else ''index'')
      in if Str name \<in> set (columns df) then Inl ValueError
         else Inr \<lparr>columns = Str name # columns df,
                   rows = map (\<lambda>p. fst p # snd p) (zip (index df) (rows df))\<rparr>)"

definition rename_State :: "frame \<Rightarrow> frame" where
  "rename_State df =
     df\<lparr>columns := map (\<lambda>c. if c = Str ''index'' then Str ''State'' else c) (columns df)\<rparr>"

subsection \<open>Column selection and names\<close>

text \<open>
  \<^verbatim>\<open>census.iloc[:, np.r_[0,1, 13:21, 35:37, 50]]\<close>: a list of positions; pandas raises
  IndexError when one of them is not a column of the table.
\<close>

definition kept_columns :: "nat list" where
  "kept_columns = [0, 1] @ [13..<21] @ [35..<37] @ [50]"

text \<open>The table made of the columns at the given positions, in the given order.\<close>

definition take_columns :: "nat list \<Rightarrow> frame \<Rightarrow> frame" where
  "take_columns ps df =
     \<lparr>columns = map (\<lambda>i. columns df ! i) ps,
      rows = map (\<lambda>r. map (\<lambda>i. cell_at r i) ps) (rows df)\<rparr>"

definition iloc_columns :: "nat list \<Rightarrow> frame \<Rightarrow> error + frame" where
  "iloc_columns ps df =
     (if list_all (\<lambda>i. i < length (columns df)) ps then Inr (take_columns ps df)
      else Inl IndexError)"

text \<open>
  \<^verbatim>\<open>census.columns.str.split(',').str[0]\<close>, the two labels set by position, and
  \<^verbatim>\<open>census.columns.str.strip().str.lower().str.replace(' ', '_')\<close>. A label that is not
  a string becomes the missing value. Letters outside ASCII are left as they are.
\<close>

definition is_space :: "char \<Rightarrow> bool" where
  "is_space c = (c \<in> set [CHR '' '', CHR 0x09, CHR 0x0A, CHR 0x0B, CHR 0x0C, CHR 0x0D])"

definition strip :: "string \<Rightarrow> string" where
  "strip s = rev (dropWhile is_space (rev (dropWhile is_space s)))"

definition lower_char :: "char \<Rightarrow> char" where
  "lower_char c =
     (let n = (of_char c :: int) in if 65 \<le> n \<and> n \<le> 90 then char_of (n + 32) else c)"

fun on_label :: "(string \<Rightarrow> string) \<Rightarrow> cell \<Rightarrow> cell" where
  "on_label f (Str s) = Str (f s)"
| "on_label f (Flt x) = Flt NaN"

definition split_first :: "string \<Rightarrow> string" where
  "split_first s = takeWhile (\<lambda>c. c \<noteq> CHR '','') s"

definition normalise :: "string \<Rightarrow> string" where
  "normalise s = map (\<lambda>c. if c = CHR '' '' then CHR ''_'' else c) (map lower_char (strip s))"

definition rename_columns :: "frame \<Rightarrow> frame" where
  "rename_columns df =
     df\<lparr>columns :=
          map (on_label normalise)
            ((map (on_label split_first) (columns df))
               [2 := Str ''White alone'', 9 := Str ''White alone non hispanic''])\<rparr>"

subsection \<open>Placeholder, percentages, numbers\<close>

text \<open>\<^verbatim>\<open>census.replace(to_replace = "Z", value = '0.0%')\<close>: every cell that is the string Z.\<close>

definition replace_cell :: "cell \<Rightarrow> cell" where
  "replace_cell c = (if c = Str ''Z'' then Str ''0.0%'' else c)"

definition replace_Z :: "frame \<Rightarrow> frame" where
  "replace_Z df = df\<lparr>rows := map (map replace_cell) (rows df)\<rparr>"

text \<open>
  \<^verbatim>\<open>census.iloc[np.r_[0:30, 42:50], 2:] = census.iloc[np.r_[0:30, 42:50], 2:]
  .replace('%','',regex=True).astype('float')/100\<close>: in the rows at the listed positions
  (IndexError when the table has fewer rows), every cell from the third column on loses
  its percent signs where it is a string, is converted by \<^verbatim>\<open>float\<close> (ValueError when
  that fails) and is divided by 100.
\<close>

definition percent_rows :: "nat list" where
  "percent_rows = [0..<30] @ [42..<50]"

fun strip_percent :: "cell \<Rightarrow> cell" where
  "strip_percent (Str s) = Str (filter (\<lambda>c. c \<noteq> CHR ''%'') s)"
| "strip_percent (Flt x) = Flt x"

fun astype_float :: "pylib \<Rightarrow> cell \<Rightarrow> error + flt" where
  "astype_float L (Str s) = (case py_float L s of None \<Rightarrow> Inl ValueError | Some v \<Rightarrow> Inr v)"
| "astype_float L (Flt x) = Inr x"

definition percent_cell :: "pylib \<Rightarrow> cell \<Rightarrow> error + cell" where
  "percent_cell L c = and_then (astype_float L (strip_percent c)) (\<lambda>v. Inr (Flt (flt_div v 100)))"

definition percent_row :: "pylib \<Rightarrow> nat \<times> cell list \<Rightarrow> error + cell list" where
  "percent_row L p =
     (if fst p \<in> set percent_rows
      then and_then (each (percent_cell L) (drop 2 (snd p))) (\<lambda>cs. Inr (take 2 (snd p) @ cs))
      else Inr (snd p))"

definition percent_to_decimal :: "pylib \<Rightarrow> frame \<Rightarrow> error + frame" where
  "percent_to_decimal L df =
     (if list_all (\<lambda>i. i < length (rows df)) percent_rows
      then and_then (each (percent_row L) (zip [0..<length (rows df)] (rows df)))
             (\<lambda>rs. Inr (df\<lparr>rows := rs\<rparr>))
      else Inl IndexError)"

text \<open>
  \<^verbatim>\<open>census.population_estimates = census.population_estimates.replace(",",'',
  regex=True).astype(int)\<close>: AttributeError when no column has the name; \<^verbatim>\<open>int\<close> of a
  string that is no integer, and of NaN, raises ValueError; \<^verbatim>\<open>int\<close> of a float truncates.
\<close>

fun astype_int :: "pylib \<Rightarrow> cell \<Rightarrow> error + cell" where
  "astype_int L (Str s) =
     (case py_int L (filter (\<lambda>c. c \<noteq> CHR '','') s) of
        None \<Rightarrow> Inl ValueError
      | Some n \<Rightarrow> Inr (Flt (Val (of_int n))))"
| "astype_int L (Flt (Val q)) = Inr (Flt (Val (of_int (int_of_float q))))"
| "astype_int L (Flt NaN) = Inl ValueError"

definition population_to_int :: "pylib \<Rightarrow> frame \<Rightarrow> error + frame" where
  "population_to_int L df =
     (case positions (Str ''population_estimates'') (columns df) of
        [] \<Rightarrow> Inl (AttributeError ''population_estimates'')
      | [i] \<Rightarrow>
          and_then (each (\<lambda>r. and_then (astype_int L (cell_at r i)) (\<lambda>c. Inr (r[i := c]))) (rows df))
            (\<lambda>rs. Inr (df\<lparr>rows := rs\<rparr>))
      | _ \<Rightarrow> Inl Unsupported)"

text \<open>
  \<^verbatim>\<open>cols = census.columns.drop('state', 'population_estimates')\<close> passes the second name
  as the \<^verbatim>\<open>errors\<close> argument: only \<^verbatim>\<open>state\<close> is left out (KeyError when there is no such
  label). \<^verbatim>\<open>census[cols] = census[cols].apply(pd.to_numeric, errors='coerce')\<close> then
  turns every string of the other columns into the number it reads, or into NaN.
\<close>

fun to_numeric :: "pylib \<Rightarrow> cell \<Rightarrow> cell" where
  "to_numeric L (Str s) = (case pd_to_numeric L s of None \<Rightarrow> Flt NaN | Some v \<Rightarrow> Flt v)"
| "to_numeric L (Flt x) = Flt x"

definition coerce_numeric :: "pylib \<Rightarrow> frame \<Rightarrow> error + frame" where
  "coerce_numeric L df =
     (if Str ''state'' \<notin> set (columns df) then Inl (KeyError ''state'')
      else if \<not> distinct (columns df) then Inl Unsupported
      else Inr (df\<lparr>rows :=
                  map (\<lambda>r. map (\<lambda>p. if fst p = Str ''state'' then snd p else to_numeric L (snd p))
                             (zip (columns df) r))
                    (rows df)\<rparr>))"

subsection \<open>The derived column and the final order\<close>

text \<open>
  \<^verbatim>\<open>census['white_alone_mean'] = census['white_alone']+census['white_alone_non_hispanic']\<close>,
  halved; the two source columns are dropped.
\<close>

definition drop_column :: "string \<Rightarrow> frame \<Rightarrow> frame" where
  "drop_column name df =
     take_columns (filter (\<lambda>i. columns df ! i \<noteq> Str name) [0..<length (columns df)]) df"

definition white_alone_mean :: "frame \<Rightarrow> error + frame" where
  "white_alone_mean df =
     and_then (float_column df ''white_alone'') (\<lambda>a.
     and_then (float_column df ''white_alone_non_hispanic'') (\<lambda>b.
       Inr (drop_column ''white_alone_non_hispanic'' (drop_column ''white_alone''
              \<lparr>columns = columns df @ [Str ''white_alone_mean''],
               rows = map (\<lambda>p. fst p @ [Flt (flt_div (flt_add (fst (snd p)) (snd (snd p))) 2)])
                        (zip (rows df) (zip a b))\<rparr>))))"

text \<open>
  \<^verbatim>\<open>cols.pop(cols.index(name))\<close> for the three last columns (ValueError when a name is
  not in the list), then \<^verbatim>\<open>census[cols + [...]]\<close>.
\<close>

definition last_columns :: "string list" where
  "last_columns =
     [''high_school_graduate_or_higher'', ''bachelor's_degree_or_higher'', ''persons_in_poverty'']"

definition reorder :: "frame \<Rightarrow> error + frame" where
  "reorder df =
     (if \<not> list_all (\<lambda>n. Str n \<in> set (columns df)) last_columns then Inl ValueError
      else if \<not> distinct (columns df) then Inl Unsupported
      else
        (let front = filter (\<lambda>i. columns df ! i \<notin> set (map Str last_columns)) [0..<length (columns df)];
             back = concat (map (\<lambda>n. positions (Str n) (columns df)) last_columns)
         in Inr (take_columns (front @ back) df)))"

subsection \<open>The cleaning pass\<close>

text \<open>
  The first half turns the file into one row per state with the 13 columns kept; the
  second half works on the cells. The script runs them one after the other.
\<close>

definition orient :: "frame \<Rightarrow> error + frame" where
  "orient raw =
     and_then (transpose_promote (census_drop_duplicates raw)) (\<lambda>t.
     and_then (reset_index (drop_leading t)) (\<lambda>c. iloc_columns kept_columns (rename_State c)))"

definition convert :: "pylib \<Rightarrow> frame \<Rightarrow> error + frame" where
  "convert L c =
     and_then (percent_to_decimal L (replace_Z (rename_columns c))) (\<lambda>c3.
     and_then (population_to_int L c3) (\<lambda>c4.
     and_then (coerce_numeric L c4) (\<lambda>c5.
     and_then (white_alone_mean c5) reorder)))"

definition clean_census :: "pylib \<Rightarrow> frame \<Rightarrow> error + frame" where
  "clean_census L raw = and_then (orient raw) (convert L)"

section \<open>Library routines for plain decimal text\<close>

text \<open>
  One instance of the library parameters, for the layouts the two files use: unsigned or
  signed decimal digits with an optional point, and months written \<^verbatim>\<open>YYYY-MM\<close>. The
  theorems below hold for every instance; this one runs the concrete examples.
\<close>

definition digit_val :: "char \<Rightarrow> int option" where
  "digit_val c =
     (let n = (of_char c :: int) in if 48 \<le> n \<and> n \<le> 57 then Some (n - 48) else None)"

fun read_digits :: "int \<Rightarrow> string \<Rightarrow> int option" where
  "read_digits acc [] = Some acc"
| "read_digits acc (c # cs) =
     (case digit_val c of None \<Rightarrow> None | Some d \<Rightarrow> read_digits (10 * acc + d) cs)"

definition int_of_digits :: "string \<Rightarrow> int option" where
  "int_of_digits s = (if s = [] then None else read_digits 0 s)"

definition unsigned_decimal :: "string \<Rightarrow> rat option" where
  "unsigned_decimal s =
     (let ip = takeWhile (\<lambda>c. c \<noteq> CHR ''.'') s;
          fp = drop 1 (dropWhile (\<lambda>c. c \<noteq> CHR ''.'') s)
      in map_option (\<lambda>n. of_int n / 10 ^ length fp) (int_of_digits (ip @ fp)))"

definition decimal_float :: "string \<Rightarrow> flt option" where
  "decimal_float s =
     (case s of
        [] \<Rightarrow> None
      | c # cs \<Rightarrow>
          if c = CHR ''-'' then map_option (\<lambda>q. Val (- q)) (unsigned_decimal cs)
          else if c = CHR ''+'' then map_option Val (unsigned_decimal cs)
          else map_option Val (unsigned_decimal s))"

definition decimal_int :: "string \<Rightarrow> int option" where
  "decimal_int s =
     (case s of
        [] \<Rightarrow> None
      | c # cs \<Rightarrow>
          if c = CHR ''-'' then map_option uminus (int_of_digits cs)
          else if c = CHR ''+'' then int_of_digits cs
          else int_of_digits s)"

definition year_month :: "string \<Rightarrow> (int \<times> int) option" where
  "year_month s =
     (if length s = 7 \<and> s ! 4 = CHR ''-'' then
        (case (int_of_digits (take 4 s), int_of_digits (drop 5 s)) of
           (Some y, Some m) \<Rightarrow> if 1 \<le> m \<and> m \<le> 12 then Some (y, m) else None
         | _ \<Rightarrow> None)
      else None)"

definition plain_lib :: pylib where
  "plain_lib =
     \<lparr>py_float = decimal_float, py_int = decimal_int,
      pd_to_numeric = decimal_float, pd_datetime = year_month\<rparr>"

section \<open>The specification's reading, and example inputs\<close>

text \<open>
  Modelled from the spec: the names of the 50 U.S. states. The script never lists them;
  they are the state columns of the Census file.
\<close>

definition us_states :: "string list" where
  "us_states =
     [''Alabama'', ''Alaska'', ''Arizona'', ''Arkansas'', ''California'', ''Colorado'',
      ''Connecticut'', ''Delaware'', ''Florida'', ''Georgia'', ''Hawaii'', ''Idaho'',
      ''Illinois'', ''Indiana'', ''Iowa'', ''Kansas'', ''Kentucky'', ''Louisiana'', ''Maine'',
      ''Maryland'', ''Massachusetts'', ''Michigan'', ''Minnesota'', ''Mississippi'',
      ''Missouri'', ''Montana'', ''Nebraska'', ''Nevada'', ''New Hampshire'', ''New Jersey'',
      ''New Mexico'', ''New York'', ''North Carolina'', ''North Dakota'', ''Ohio'',
      ''Oklahoma'', ''Oregon'', ''Pennsylvania'', ''Rhode Island'', ''South Carolina'',
      ''South Dakota'', ''Tennessee'', ''Texas'', ''Utah'', ''Vermont'', ''Virginia'',
      ''Washington'', ''West Virginia'', ''Wisconsin'', ''Wyoming'']"

text \<open>
  The specification's words for the ethnicity distribution: the mean fraction times the
  mean of the totals, with no truncation. For comparison with \<open>ethnicity_heights\<close> only.
\<close>

definition spec_ethnicity_heights :: "frame \<Rightarrow> gun_row list \<Rightarrow> error + flt list" where
  "spec_ethnicity_heights census gun =
     each (\<lambda>name. and_then (float_column census name)
                    (\<lambda>xs. Inr (flt_mul (series_mean xs) (Val (totals_mean gun)))))
       ethnicity_fields"

text \<open>The labels of the Census table when the cleaning pass has run on the real file.\<close>

definition clean_labels :: "cell list" where
  "clean_labels =
     map Str [''state'', ''population_estimates'', ''black_or_african_american_alone'',
       ''american_indian_and_alaska_native_alone'', ''asian_alone'',
       ''native_hawaiian_and_other_pacific_islander_alone'', ''two_or_more_races'',
       ''hispanic_or_latino'', ''white_alone_mean'', ''high_school_graduate_or_higher'',
       ''bachelor's_degree_or_higher'', ''persons_in_poverty'']"

text \<open>A cleaned Census table of the 50 states in which every proportion is one half.\<close>

definition census_half :: frame where
  "census_half =
     \<lparr>columns = clean_labels,
      rows = map (\<lambda>s. Str s # Flt (Val 1000) # replicate 10 (Flt (Val (1 / 2)))) us_states\<rparr>"

text \<open>Background checks of one state and year with the given monthly totals.\<close>

definition gun_of_totals :: "int list \<Rightarrow> gun_row list" where
  "gun_of_totals ts =
     map (\<lambda>t. \<lparr>month_no = 1, year = 2016, state = ''Alabama'', totals = t\<rparr>) ts"

text \<open>
  Two states with one row for each year from 1998 to 2017, as the real file has them:
  Alabama with 1 check a year, Alaska with 10.
\<close>

definition two_states :: "gun_row list" where
  "two_states =
     map (\<lambda>y. \<lparr>month_no = 1, year = y, state = ''Alabama'', totals = 1\<rparr>) [1998 ..2017] @
     map (\<lambda>y. \<lparr>month_no = 1, year = y, state = ''Alaska'', totals = 10\<rparr>) [1998 ..2017]"

text \<open>
  Rows of the background-check file: one row of September 2017 with 100 checks for a
  state; the file with one such row for each of the 50 states and the five territories;
  and a file that holds rows of Alabama and Guam only.
\<close>

definition nics_row :: "string \<Rightarrow> csv_row" where
  "nics_row s =
     \<lparr>csv_month = ''2017-09'', csv_state = s, csv_transactions = replicate 24 NaN,
      csv_totals = 100\<rparr>"

definition nics_file :: "csv_row list" where
  "nics_file = map nics_row (us_states @ territories)"

definition short_file :: "csv_row list" where
  "short_file = [nics_row ''Alabama'', nics_row ''Guam'']"

text \<open>
  Words for stating research question 4: the checks of a state in a year, whether the
  table has a row of the state in the year, and the growth from 1999 to 2016, all in
  unbounded integers; whether an integer is an int64 value; whether the states with rows
  in 1999 are the states with rows in 2016; and the difference of the two yearly sums of
  a state as the script's arithmetic gives it.
\<close>

definition state_year_total :: "gun_row list \<Rightarrow> string \<Rightarrow> int \<Rightarrow> int" where
  "state_year_total gun s y =
     sum_list (map totals (filter (\<lambda>r. state r = s \<and> year r = y) gun))"


definition growth :: "gun_row list \<Rightarrow> string \<Rightarrow> int" where
  "growth gun s = state_year_total gun s 2016 - state_year_total gun s 1999"




text \<open>
  A table with one row of 1999 and one of 2016 for each of six states, and a row of 2016
  alone for a seventh; and a table of two states with the same growth.
\<close>

definition year_rows :: "string \<Rightarrow> int \<Rightarrow> int \<Rightarrow> gun_row list" where
  "year_rows s t99 t16 =
     [\<lparr>month_no = 1, year = 1999, state = s, totals = t99\<rparr>,
      \<lparr>month_no = 1, year = 2016, state = s, totals = t16\<rparr>]"



text \<open>A table of one state with two months of 2^62 checks each in 2016.\<close>

definition gun_large :: "gun_row list" where
  "gun_large =
     year_rows ''Alabama'' 0 4611686018427387904 @
     [\<lparr>month_no = 2, year = 2016, state = ''Alabama'', totals = 4611686018427387904\<rparr>]"

text \<open>
  A cleaned Census table of the 50 states in which one person in five is in poverty in
  Alabama and one in ten in every other state; and background checks of Alaska alone, 100
  and 300 in two months.
\<close>

definition census_poverty :: frame where
  "census_poverty =
     \<lparr>columns = clean_labels,
      rows = map (\<lambda>s. Str s # Flt (Val 1000) # replicate 9 (Flt (Val (1 / 2))) @
                      [Flt (Val (if s = ''Alabama'' then 1 / 5 else 1 / 10))])
               us_states\<rparr>"

definition gun_alaska :: "gun_row list" where
  "gun_alaska =
     [\<lparr>month_no = 1, year = 2016, state = ''Alaska'', totals = 100\<rparr>,
      \<lparr>month_no = 2, year = 2016, state = ''Alaska'', totals = 300\<rparr>]"

text \<open>
  A Census file as the script reads it: the columns \<^verbatim>\<open>Fact\<close>, \<^verbatim>\<open>Fact Note\<close> and the 50
  states, and 50 facts as rows, the facts the script keeps at the positions where the real
  file has them. The population fact holds the text \<open>pop\<close> for every state, every other
  fact the text \<open>pct\<close>. \<open>oriented\<close> is the same data with one row per state and the 13
  columns kept.
\<close>

definition population_fact :: string where
  "population_fact = ''Population estimates, July 1, 2016,  (V2016)''"

definition other_facts :: "string list" where
  "other_facts =
     [''F01'', ''F02'', ''F03'', ''F04'', ''F05'', ''F06'', ''F07'', ''F08'', ''F09'', ''F10'', ''F11'',
      ''White alone, percent, July 1, 2016,  (V2016)'',
      ''Black or African American alone, percent, July 1, 2016,  (V2016)'',
      ''American Indian and Alaska Native alone, percent, July 1, 2016,  (V2016)'',
      ''Asian alone, percent, July 1, 2016,  (V2016)'',
      ''Native Hawaiian and Other Pacific Islander alone, percent, July 1, 2016,  (V2016)'',
      ''Two or More Races, percent, July 1, 2016,  (V2016)'',
      ''Hispanic or Latino, percent, July 1, 2016,  (V2016)'',
      ''White alone, not Hispanic or Latino, percent, July 1, 2016,  (V2016)'',
      ''F20'', ''F21'', ''F22'', ''F23'', ''F24'', ''F25'', ''F26'', ''F27'', ''F28'', ''F29'',
      ''F30'', ''F31'', ''F32'', ''F33'',
      ''High school graduate or higher, percent of persons age 25 years+, 2011-2015'',
      ''Bachelor's degree or higher, percent of persons age 25 years+, 2011-2015'',
      ''F36'', ''F37'', ''F38'', ''F39'', ''F40'', ''F41'', ''F42'', ''F43'', ''F44'', ''F45'',
      ''F46'', ''F47'', ''F48'',
      ''Persons in poverty, percent'']"

definition census_file :: "string \<Rightarrow> string \<Rightarrow> frame" where
  "census_file pop pct =
     \<lparr>columns = Str ''Fact'' # Str ''Fact Note'' # map Str us_states,
      rows = (Str population_fact # Flt NaN # replicate 50 (Str pop)) #
             map (\<lambda>f. Str f # Flt NaN # replicate 50 (Str pct)) other_facts\<rparr>"

definition kept_facts :: "cell list" where
  "kept_facts = map Str
     [''State'',
      ''Population estimates, July 1, 2016,  (V2016)'',
      ''White alone, percent, July 1, 2016,  (V2016)'',
      ''Black or African American alone, percent, July 1, 2016,  (V2016)'',
      ''American Indian and Alaska Native alone, percent, July 1, 2016,  (V2016)'',
      ''Asian alone, percent, July 1, 2016,  (V2016)'',
      ''Native Hawaiian and Other Pacific Islander alone, percent, July 1, 2016,  (V2016)'',
      ''Two or More Races, percent, July 1, 2016,  (V2016)'',
      ''Hispanic or Latino, percent, July 1, 2016,  (V2016)'',
      ''White alone, not Hispanic or Latino, percent, July 1, 2016,  (V2016)'',
      ''High school graduate or higher, percent of persons age 25 years+, 2011-2015'',
      ''Bachelor's degree or higher, percent of persons age 25 years+, 2011-2015'',
      ''Persons in poverty, percent'']"

definition oriented :: "string \<Rightarrow> string \<Rightarrow> frame" where
  "oriented pop pct =
     \<lparr>columns = kept_facts,
      rows = map (\<lambda>s. Str s # Str pop # replicate 11 (Str pct)) us_states\<rparr>"

text \<open>
  A background-check file with the same row twice; and the Census table as it stands
  when the percent conversion runs, with all 50 states, where the converted cells of the
  converted rows hold the given cell.
\<close>

definition dup_file :: "csv_row list" where
  "dup_file = [nics_row ''Alabama'', nics_row ''Alabama'']"

definition percent_table :: "cell \<Rightarrow> frame" where
  "percent_table c =
     \<lparr>columns = map (on_label normalise) ((map (on_label split_first) kept_facts)
                   [2 := Str ''White alone'', 9 := Str ''White alone non hispanic'']),
      rows = map (\<lambda>p. Str (snd p) # Str ''4,863,300'' #
                       replicate 11 (if fst p \<in> set percent_rows then c else Str ''50%''))
               (zip [0..<50] us_states)\<rparr>"

text \<open>
  The Census file without its last fact (the persons in poverty), so with 49 facts; and a
  table with 51 columns and no row.
\<close>

definition census_short :: "string \<Rightarrow> string \<Rightarrow> frame" where
  "census_short pop pct =
     \<lparr>columns = Str ''Fact'' # Str ''Fact Note'' # map Str us_states,
      rows = (Str population_fact # Flt NaN # replicate 50 (Str pop)) #
             map (\<lambda>f. Str f # Flt NaN # replicate 50 (Str pct)) (butlast other_facts)\<rparr>"

definition wide :: frame where
  "wide = \<lparr>columns = replicate 51 (Str ''x''), rows = []\<rparr>"

text \<open>
  What the cleaning pass makes of \<open>census_file\<close> with the population 4,863,300: the value
  \<open>v\<close> in the rows the percent conversion covers, and NaN in the rows 30 to 41, whose
  percent text \<^verbatim>\<open>to_numeric\<close> does not read.
\<close>

definition cleaned :: "flt \<Rightarrow> frame" where
  "cleaned v =
     \<lparr>columns = clean_labels,
      rows = map (\<lambda>p. Str (snd p) # Flt (Val 4863300) #
                       replicate 10 (Flt (if fst p \<in> set percent_rows then v else NaN)))
               (zip [0..<50] us_states)\<rparr>"

text \<open>
  Every row is as long as the labels at most, and every cell outside the \<^verbatim>\<open>state\<close>
  columns is a float.
\<close>

definition numeric_table :: "frame \<Rightarrow> bool" where
  "numeric_table df =
     (\<forall>r\<in>set (rows df). length r \<le> length (columns df)
        \<and> (\<forall>i<length (columns df). columns df ! i \<noteq> Str ''state'' \<longrightarrow> (\<exists>x. cell_at r i = Flt x)))"

section \<open>Basic facts\<close>

lemma each_Inr_iff: "each f xs = Inr ys \<longleftrightarrow> list_all2 (\<lambda>x y. f x = Inr y) xs ys"
proof (induction xs arbitrary: ys)
  case Nil
  then show ?case by auto
next
  case (Cons x xs)
  show ?case
  proof (cases "f x")
    case (Inl e)
    then show ?thesis by (auto simp: list_all2_Cons1)
  next
    case (Inr y)
    then show ?thesis
      using Cons.IH by (cases "each f xs") (auto simp: list_all2_Cons1)
  qed
qed

lemma and_then_Inr_iff: "and_then m f = Inr y \<longleftrightarrow> (\<exists>x. m = Inr x \<and> f x = Inr y)"
  by (cases m) (auto simp: and_then_def)

lemma int_of_float_bounds:
  "\<bar>of_int (int_of_float q)\<bar> \<le> \<bar>q\<bar> \<and> \<bar>q - of_int (int_of_float q)\<bar> < 1"
  unfolding int_of_float_def by (auto; linarith)

lemma int_of_float_exact: "of_int (int_of_float q) = q \<longleftrightarrow> q \<in> \<int>"
  unfolding int_of_float_def by (auto elim!: Ints_cases)

lemma int_of_float_of_int: "int_of_float (of_int n) = n"
  by (simp add: int_of_float_def)

lemma present_replicate: "present (replicate n (Val v)) = replicate n v"
  by (induction n) auto

lemma series_mean_uniform:
  assumes "xs \<noteq> []" and "set xs \<subseteq> {Val v}"
  shows "series_mean xs = Val v"
proof -
  have xs: "xs = replicate (length xs) (Val v)"
    using assms(2) by (induction xs) auto
  have n: "0 < length xs"
    using assms(1) by simp
  have "series_mean (replicate (length xs) (Val v)) = Val v"
    using n by (simp add: series_mean_def present_replicate sum_list_replicate)
  with xs show ?thesis by simp
qed

section \<open>Research question 5: the yearly trend\<close>

text \<open>
  C1. The claim: the trend sums the totals of all states per year, over the years with
  complete coverage, in ascending order of the year. The script titles the chart
  "... Per Year Between 1999-2016 in the U.S" and comments the slice as "Filtered the
  years to include only years that had complete monthly data", but the slice
  \<^verbatim>\<open>iloc[1:19]\<close> cuts \<open>years_sum\<close>, which has one row per state and year: it keeps the
  18 rows after the first, that is the years 1999 to 2016 of the first state alone. On
  \<open>two_states\<close> the result holds Alabama's 1 check for every year, while 11 checks were
  made in 1999 in the two states together.
\<close>

theorem time_years_first_state_only:
  "time_years two_states = map (\<lambda>y. (y, 1)) [1999 ..2016]
   \<and> sum_list (map totals (filter (\<lambda>r. year r = 1999) two_states)) = 11"
  by code_simp

section \<open>Research questions 1 and 2: the estimates\<close>

lemma estimates_at:
  assumes "each (estimate census bg) names = Inr hs"
  shows "length hs = length names
     \<and> (\<forall>i<length names. \<exists>xs.
           float_column census (names ! i) = Inr xs
           \<and> (case series_mean xs of
                 NaN \<Rightarrow> hs ! i = NaN
               | Val m \<Rightarrow> hs ! i = Val (m * of_int bg)))"
proof -
  from assms have all2: "list_all2 (\<lambda>n h. estimate census bg n = Inr h) names hs"
    by (simp add: each_Inr_iff)
  then have len: "length hs = length names"
    by (simp add: list_all2_lengthD)
  have "\<exists>xs. float_column census (names ! i) = Inr xs
          \<and> (case series_mean xs of
                NaN \<Rightarrow> hs ! i = NaN
              | Val m \<Rightarrow> hs ! i = Val (m * of_int bg))"
    if "i < length names" for i
  proof -
    have "estimate census bg (names ! i) = Inr (hs ! i)"
      using list_all2_nthD [OF all2 that] by simp
    then show ?thesis
      by (auto simp: estimate_def and_then_Inr_iff split: flt.splits)
  qed
  with len show ?thesis by blast
qed

lemma truncated_product:
  fixes q m :: rat
  assumes "q \<notin> \<int>" and "m \<noteq> 0"
  shows "m * of_int (int_of_float q) \<noteq> m * q"
  using assms int_of_float_exact [of q] by simp

text \<open>
  C10. For a table with at least one row, \<open>bg_checks_mean\<close> is the mean of the totals
  truncated toward zero: an integer no larger in magnitude than the mean and less than 1
  away from it, and different from the mean whenever the mean is not an integer. Every
  height of the ethnicity and of the education chart is the mean of the field's fractions
  times this integer (and missing when the field has no value); so when the mean of the
  totals is not an integer and the mean fraction is not zero, the height is not the mean
  fraction times the exact mean.
\<close>

theorem bg_checks_mean_truncates:
  assumes "gun \<noteq> []"
  shows "bg_checks_mean gun = Inr (int_of_float (totals_mean gun))
     \<and> \<bar>of_int (int_of_float (totals_mean gun))\<bar> \<le> \<bar>totals_mean gun\<bar>
     \<and> \<bar>totals_mean gun - of_int (int_of_float (totals_mean gun))\<bar> < 1
     \<and> (totals_mean gun \<notin> \<int> \<longrightarrow> of_int (int_of_float (totals_mean gun)) \<noteq> totals_mean gun)
     \<and> (\<forall>hs. ethnicity_heights census gun = Inr hs \<longrightarrow>
          length hs = length ethnicity_fields
          \<and> (\<forall>i<length ethnicity_fields. \<exists>xs.
                float_column census (ethnicity_fields ! i) = Inr xs
                \<and> (case series_mean xs of
                      NaN \<Rightarrow> hs ! i = NaN
                    | Val m \<Rightarrow>
                        hs ! i = Val (m * of_int (int_of_float (totals_mean gun)))
                        \<and> (totals_mean gun \<notin> \<int> \<and> m \<noteq> 0 \<longrightarrow> hs ! i \<noteq> Val (m * totals_mean gun)))))
     \<and> (\<forall>hs. education_heights census gun = Inr hs \<longrightarrow>
          length hs = length education_fields
          \<and> (\<forall>i<length education_fields. \<exists>xs.
                float_column census (education_fields ! i) = Inr xs
                \<and> (case series_mean xs of
                      NaN \<Rightarrow> hs ! i = NaN
                    | Val m \<Rightarrow>
                        hs ! i = Val (m * of_int (int_of_float (totals_mean gun)))
                        \<and> (totals_mean gun \<notin> \<int> \<and> m \<noteq> 0 \<longrightarrow> hs ! i \<noteq> Val (m * totals_mean gun)))))"
proof -
  let ?M = "totals_mean gun"
  let ?T = "int_of_float ?M"
  have bg: "bg_checks_mean gun = Inr ?T"
    using assms by (simp add: bg_checks_mean_def)
  have b1: "\<bar>of_int ?T\<bar> \<le> \<bar>?M\<bar>" and b2: "\<bar>?M - of_int ?T\<bar> < 1"
    using int_of_float_bounds [of ?M] by simp_all
  have b3: "?M \<notin> \<int> \<longrightarrow> of_int ?T \<noteq> ?M"
    using int_of_float_exact [of ?M] by simp
  have hts: "length hs = length names
     \<and> (\<forall>i<length names. \<exists>xs.
           float_column census (names ! i) = Inr xs
           \<and> (case series_mean xs of
                 NaN \<Rightarrow> hs ! i = NaN
               | Val m \<Rightarrow>
                   hs ! i = Val (m * of_int ?T)
                   \<and> (?M \<notin> \<int> \<and> m \<noteq> 0 \<longrightarrow> hs ! i \<noteq> Val (m * ?M))))"
    if "each (estimate census ?T) names = Inr hs" for names hs
  proof -
    note e = estimates_at [OF that]
    have "\<exists>xs. float_column census (names ! i) = Inr xs
           \<and> (case series_mean xs of
                 NaN \<Rightarrow> hs ! i = NaN
               | Val m \<Rightarrow>
                   hs ! i = Val (m * of_int ?T)
                   \<and> (?M \<notin> \<int> \<and> m \<noteq> 0 \<longrightarrow> hs ! i \<noteq> Val (m * ?M)))"
      if i: "i < length names" for i
    proof -
      from e i obtain xs where xs: "float_column census (names ! i) = Inr xs"
        and h: "case series_mean xs of NaN \<Rightarrow> hs ! i = NaN | Val m \<Rightarrow> hs ! i = Val (m * of_int ?T)"
        by blast
      have "case series_mean xs of
                 NaN \<Rightarrow> hs ! i = NaN
               | Val m \<Rightarrow>
                   hs ! i = Val (m * of_int ?T)
                   \<and> (?M \<notin> \<int> \<and> m \<noteq> 0 \<longrightarrow> hs ! i \<noteq> Val (m * ?M))"
        using h truncated_product [of ?M] by (cases "series_mean xs") auto
      with xs show ?thesis by blast
    qed
    with e show ?thesis by blast
  qed
  have eth: "ethnicity_heights census gun = each (estimate census ?T) ethnicity_fields"
    and edu: "education_heights census gun = each (estimate census ?T) education_fields"
    using bg by (simp_all add: ethnicity_heights_def education_heights_def and_then_def)
  show ?thesis
    unfolding eth edu using bg b1 b2 b3 hts by blast
qed

theorem bg_checks_mean_truncates_witness:
  "gun_of_totals [4, 5] \<noteq> []
   \<and> totals_mean (gun_of_totals [4, 5]) = 9 / 2
   \<and> bg_checks_mean (gun_of_totals [4, 5]) = Inr 4
   \<and> ethnicity_heights census_half (gun_of_totals [4, 5]) = Inr (replicate 7 (Val 2))
   \<and> education_heights census_half (gun_of_totals [4, 5]) = Inr [Val 2, Val 2]
   \<and> float_column census_half (education_fields ! 0) = Inr (replicate 50 (Val (1 / 2)))
   \<and> series_mean (replicate 50 (Val (1 / 2))) = Val (1 / 2)
   \<and> [Val 2, Val 2] ! 0 \<noteq> Val (1 / 2 * (9 / 2))"
proof -
  have ne: "gun_of_totals [4, 5] \<noteq> []"
    by (simp add: gun_of_totals_def)
  have m: "totals_mean (gun_of_totals [4, 5]) = 9 / 2"
    by (simp add: gun_of_totals_def totals_mean_def)
  have t: "int_of_float (9 / 2) = 4"
    by code_simp
  have eth: "ethnicity_heights census_half (gun_of_totals [4, 5]) = Inr (replicate 7 (Val 2))"
    by code_simp
  have edu: "education_heights census_half (gun_of_totals [4, 5]) = Inr [Val 2, Val 2]"
    by code_simp
  have fc: "float_column census_half (education_fields ! 0) = Inr (replicate 50 (Val (1 / 2)))"
    by code_simp
  have sm: "series_mean (replicate 50 (Val (1 / 2))) = Val (1 / 2)"
    by code_simp
  show ?thesis
    using bg_checks_mean_truncates [OF ne, of census_half] ne m t eth edu fc sm by simp
qed

text \<open>
  C6, as the specification states it, fails: with monthly totals 1 and 2 the mean is 3/2,
  the script multiplies by \<open>int(3/2) = 1\<close>, and every height is 1/2 where the mean
  fraction times the mean of the totals is 3/4.
\<close>

theorem ethnicity_heights_not_exact_mean:
  "ethnicity_heights census_half (gun_of_totals [1, 2]) = Inr (replicate 7 (Val (1 / 2)))
   \<and> spec_ethnicity_heights census_half (gun_of_totals [1, 2]) = Inr (replicate 7 (Val (3 / 4)))"
  by code_simp

text \<open>
  C6, amended. When the ethnicity heights are computed, there is one per ethnicity field,
  and each is the mean of the field's fractions over the states (missing values skipped)
  times the mean of the totals truncated to an integer. With a uniform fraction of one
  half and a mean of the totals of 20,000 the height is exactly 10,000.
\<close>

theorem ethnicity_heights_truncated_mean:
  assumes "ethnicity_heights census gun = Inr hs"
  shows "length hs = length ethnicity_fields
     \<and> (\<forall>i<length ethnicity_fields. \<exists>xs.
           float_column census (ethnicity_fields ! i) = Inr xs
           \<and> hs ! i = flt_mul (series_mean xs) (Val (of_int (int_of_float (totals_mean gun)))))
     \<and> (totals_mean gun = 20000 \<longrightarrow>
          (\<forall>i<length ethnicity_fields. \<forall>xs.
             float_column census (ethnicity_fields ! i) = Inr xs \<and> xs \<noteq> [] \<and> set xs \<subseteq> {Val (1 / 2)}
             \<longrightarrow> hs ! i = Val 10000))"
proof -
  from assms obtain bg where bg: "bg_checks_mean gun = Inr bg"
    and hs: "each (estimate census bg) ethnicity_fields = Inr hs"
    by (auto simp: ethnicity_heights_def and_then_Inr_iff)
  from bg have bg_eq: "bg = int_of_float (totals_mean gun)"
    by (auto simp: bg_checks_mean_def split: if_splits)
  from hs have all2: "list_all2 (\<lambda>n h. estimate census bg n = Inr h) ethnicity_fields hs"
    by (simp add: each_Inr_iff)
  then have len: "length hs = length ethnicity_fields"
    by (simp add: list_all2_lengthD)
  have at: "\<exists>xs. float_column census (ethnicity_fields ! i) = Inr xs
              \<and> hs ! i = flt_mul (series_mean xs) (Val (of_int bg))"
    if "i < length ethnicity_fields" for i
  proof -
    have "estimate census bg (ethnicity_fields ! i) = Inr (hs ! i)"
      using list_all2_nthD [OF all2 that] by simp
    then show ?thesis
      by (auto simp: estimate_def and_then_Inr_iff)
  qed
  have half: "hs ! i = Val 10000"
    if "totals_mean gun = 20000" and "i < length ethnicity_fields"
      and "float_column census (ethnicity_fields ! i) = Inr xs" and "xs \<noteq> []"
      and "set xs \<subseteq> {Val (1 / 2)}" for i xs
  proof -
    from at [OF that(2)] that(3)
    have h: "hs ! i = flt_mul (series_mean xs) (Val (of_int bg))" by auto
    have "int_of_float (totals_mean gun) = 20000"
      using that(1) int_of_float_of_int [of 20000] by simp
    with bg_eq have "bg = 20000" by simp
    with h series_mean_uniform [OF that(4) that(5)] show ?thesis by simp
  qed
  show ?thesis
    using len at half bg_eq by blast
qed

theorem ethnicity_heights_truncated_mean_witness:
  "ethnicity_heights census_half (gun_of_totals [20000, 20000]) = Inr (replicate 7 (Val 10000))
   \<and> totals_mean (gun_of_totals [20000, 20000]) = 20000
   \<and> length (replicate 7 (Val 10000)) = length ethnicity_fields"
proof -
  have e: "ethnicity_heights census_half (gun_of_totals [20000, 20000])
             = Inr (replicate 7 (Val 10000))"
    by code_simp
  have m: "totals_mean (gun_of_totals [20000, 20000]) = 20000"
    by (simp add: gun_of_totals_def totals_mean_def)
  show ?thesis
    using ethnicity_heights_truncated_mean [OF e] e m by simp
qed

section \<open>Territory filtering\<close>

lemma states_territories_disjoint: "set us_states \<inter> set territories = {}"
  by (simp add: us_states_def territories_def)

lemma split_month_states:
  "each (split_month L) raw = Inr gun \<Longrightarrow> map state gun = map csv_state raw"
proof (induction raw arbitrary: gun)
  case Nil
  then show ?case by simp
next
  case (Cons r raw)
  then show ?case
    by (auto simp: split_month_def split: sum.splits option.splits prod.splits)
qed

lemma states_filter:
  "set (map state (filter (\<lambda>r. state r \<notin> T) g)) = set (map state g) - T"
  by (induction g) auto

text \<open>
  C9, as stated, fails: the filter removes the five listed names and nothing else, and
  adds no state. A file with rows of Alabama and Guam only is left with Alabama only.
\<close>

theorem states_not_always_fifty:
  "clean_gun plain_lib short_file
     = Inr [\<lparr>month_no = 9, year = 2017, state = ''Alabama'', totals = 100\<rparr>]
   \<and> set (map state [\<lparr>month_no = 9, year = 2017, state = ''Alabama'', totals = 100\<rparr>])
       \<noteq> set us_states"
proof -
  have "clean_gun plain_lib short_file
          = Inr [\<lparr>month_no = 9, year = 2017, state = ''Alabama'', totals = 100\<rparr>]"
    by code_simp
  moreover have "set (map state [\<lparr>month_no = 9, year = 2017, state = ''Alabama'', totals = 100\<rparr>])
                   \<noteq> set us_states"
    by (simp add: us_states_def)
  ultimately show ?thesis by simp
qed

text \<open>
  C9, amended. When the cleaning of the background-check table succeeds, the distinct
  states of the result are the distinct states of the file without Guam, District of
  Columbia, Mariana Islands, Puerto Rico and Virgin Islands; they are exactly the 50 U.S.
  states when the file holds rows for each of the 50 states and, besides them, only rows of
  those five territories.
\<close>

theorem drop_territories_states:
  assumes "clean_gun L raw = Inr gun"
  shows "set (map state gun) = set (map csv_state raw) - set territories
     \<and> (set us_states \<subseteq> set (map csv_state raw)
          \<and> set (map csv_state raw) \<subseteq> set us_states \<union> set territories
        \<longrightarrow> set (map state gun) = set us_states)"
proof -
  from assms obtain g0 where g0: "each (split_month L) raw = Inr g0"
    and gun: "gun = drop_territories g0"
    by (auto simp: clean_gun_def and_then_Inr_iff)
  have eq: "set (map state gun) = set (map csv_state raw) - set territories"
    unfolding gun drop_territories_def states_filter split_month_states [OF g0] ..
  show ?thesis
    using eq states_territories_disjoint by auto
qed

theorem drop_territories_states_witness:
  "clean_gun plain_lib nics_file
     = Inr (map (\<lambda>s. \<lparr>month_no = 9, year = 2017, state = s, totals = 100\<rparr>) us_states)
   \<and> set us_states \<subseteq> set (map csv_state nics_file)
   \<and> set (map csv_state nics_file) \<subseteq> set us_states \<union> set territories
   \<and> set (map state (map (\<lambda>s. \<lparr>month_no = 9, year = 2017, state = s, totals = 100\<rparr>) us_states))
       = set us_states"
proof -
  have e: "clean_gun plain_lib nics_file
             = Inr (map (\<lambda>s. \<lparr>month_no = 9, year = 2017, state = s, totals = 100\<rparr>) us_states)"
    by code_simp
  have a: "set us_states \<subseteq> set (map csv_state nics_file)"
    by (simp add: nics_file_def nics_row_def comp_def)
  have b: "set (map csv_state nics_file) \<subseteq> set us_states \<union> set territories"
    by (simp add: nics_file_def nics_row_def comp_def)
  show ?thesis
    using drop_territories_states [OF e] e a b by blast
qed

section \<open>Research question 4: growth by state\<close>























text \<open>
  The sums wrap around: two months of 2^62 checks add up to -2^63, and with the same
  states in both years the difference is an int64 value as well.
\<close>

lemma years_sum_wraps:
  "years_sum gun_large
     = [((''Alabama'', 1999), 0), ((''Alabama'', 2016), - 9223372036854775808)]
   \<and> diff gun_large = [(''Alabama'', Integer 17, Integer (- 9223372036854775808))]
   \<and> growth gun_large ''Alabama'' = 9223372036854775808"
  by code_simp




section \<open>Research question 3: poverty\<close>

text \<open>
  C2. The claim: for each state of both tables, that state's share of persons in poverty
  times that same state's mean of totals, and the share times 100; other states left out.
  The script says the same of itself ("... in each state by the average number of
  background checks performed in the same state") and builds \<open>merged\<close> for it, but then
  multiplies \<^verbatim>\<open>census['persons_in_poverty']\<close>, not \<^verbatim>\<open>merged['persons_in_poverty']\<close>,
  with \<^verbatim>\<open>merged['totals']\<close>: the two columns are matched by row number. With checks of
  Alaska alone (mean 200), the first point is Alabama's share of 1/5 times Alaska's mean,
  40 at 20 percent, where Alaska's own point is 20 at 10 percent; and the 49 other states
  of the Census table, Alabama among them, stay in the second series.
\<close>

theorem state_checks_mean_misaligned:
  "state_checks gun_alaska = [(''Alaska'', 200)]
   \<and> state_checks_mean census_poverty gun_alaska = Inr (Val 40 # replicate 49 NaN)
   \<and> percent_poverty census_poverty = Inr (Val 20 # replicate 49 (Val 10))"
  by code_simp

section \<open>The Census table: orientation\<close>

lemma unseen_distinct:
  "distinct xs \<Longrightarrow> set xs \<inter> set seen = {} \<Longrightarrow> unseen seen xs = xs"
  by (induction xs arbitrary: seen) auto

lemma drop_duplicates_distinct_id: "distinct xs \<Longrightarrow> drop_duplicates xs = xs"
  by (simp add: drop_duplicates_def unseen_distinct)

lemma upt_two: "[0..<Suc (Suc n)] = 0 # 1 # map (\<lambda>j. j + 2) [0..<n]"
  by (induction n) auto

lemma zip_map_upt:
  "map (\<lambda>p. fst p # snd p) (zip xs (map G [0..<length xs])) = map (\<lambda>j. xs ! j # G j) [0..<length xs]"
  by (rule nth_equalityI) simp_all

lemma kept_columns_list: "kept_columns = [0, 1, 13, 14, 15, 16, 17, 18, 19, 20, 35, 36, 50]"
  by code_simp

lemma orient_rectangular:
  assumes cols: "columns raw = a # b # S"
    and dist: "distinct (rows raw)"
    and ab: "a \<notin> set S" "b \<notin> set S"
    and idx: "Str ''index'' \<notin> set (map (\<lambda>r. cell_at r 0) (rows raw))"
    and len: "50 \<le> length (rows raw)"
  shows "orient raw =
     Inr \<lparr>columns = map (\<lambda>i. (Str ''State'' # map (\<lambda>r. cell_at r 0) (rows raw)) ! i) kept_columns,
          rows = map (\<lambda>j. map (\<lambda>i. cell_at (S ! j # map (\<lambda>r. cell_at r (j + 2)) (rows raw)) i)
                             kept_columns)
                   [0..<length S]\<rparr>"
proof -
  define N where "N = map (\<lambda>r. cell_at r 0) (rows raw)"
  define F where "F = (\<lambda>j. map (\<lambda>r. cell_at r j) (rows raw))"
  have dd: "census_drop_duplicates raw = raw"
    by (simp add: census_drop_duplicates_def drop_duplicates_distinct_id [OF dist])
  have t: "transpose_promote raw =
             Inr \<lparr>columns = N, rows = F 0 # F 1 # map (\<lambda>j. F (j + 2)) [0..<length S],
                  index = a # b # S\<rparr>"
    by (simp add: transpose_promote_def cols N_def F_def upt_two del: upt_Suc)
  have keep: "filter (\<lambda>p. fst p \<noteq> a \<and> fst p \<noteq> b) (zip S Y) = zip S Y" for Y :: "cell list list"
    using ab by (auto simp: filter_id_conv dest: set_zip_leftD)
  have dl: "drop_leading \<lparr>columns = N, rows = F 0 # F 1 # map (\<lambda>j. F (j + 2)) [0..<length S],
                          index = a # b # S\<rparr>
              = \<lparr>columns = N, rows = map (\<lambda>j. F (j + 2)) [0..<length S], index = S\<rparr>"
    by (simp add: drop_leading_def Let_def keep)
  have ri: "reset_index \<lparr>columns = N, rows = map (\<lambda>j. F (j + 2)) [0..<length S], index = S\<rparr>
              = Inr \<lparr>columns = Str ''index'' # N,
                    rows = map (\<lambda>j. S ! j # F (j + 2)) [0..<length S]\<rparr>"
    using idx by (simp add: reset_index_def N_def zip_map_upt)
  have rn: "rename_State \<lparr>columns = Str ''index'' # N,
                          rows = map (\<lambda>j. S ! j # F (j + 2)) [0..<length S]\<rparr>
              = \<lparr>columns = Str ''State'' # N, rows = map (\<lambda>j. S ! j # F (j + 2)) [0..<length S]\<rparr>"
  proof -
    have "Str ''index'' \<notin> set N"
      using idx by (simp add: N_def)
    then have "map (\<lambda>c. if c = Str ''index'' then Str ''State'' else c) N = N"
      by (intro map_idI) auto
    then show ?thesis
      by (simp add: rename_State_def)
  qed
  have ln: "50 < length (Str ''State'' # N)"
    using len by (simp add: N_def)
  have il: "iloc_columns kept_columns
              \<lparr>columns = Str ''State'' # N, rows = map (\<lambda>j. S ! j # F (j + 2)) [0..<length S]\<rparr>
              = Inr \<lparr>columns = map (\<lambda>i. (Str ''State'' # N) ! i) kept_columns,
                    rows = map (\<lambda>j. map (\<lambda>i. cell_at (S ! j # F (j + 2)) i) kept_columns)
                             [0..<length S]\<rparr>"
    using ln by (auto simp: iloc_columns_def take_columns_def kept_columns_list)
  have "orient raw =
          Inr \<lparr>columns = map (\<lambda>i. (Str ''State'' # N) ! i) kept_columns,
               rows = map (\<lambda>j. map (\<lambda>i. cell_at (S ! j # F (j + 2)) i) kept_columns)
                        [0..<length S]\<rparr>"
    by (simp only: orient_def dd t dl ri rn il and_then_def sum.case)
  then show ?thesis
    by (simp only: N_def F_def)
qed


lemma other_facts_distinct: "distinct other_facts"
  by (simp add: other_facts_def)

lemma other_facts_length: "length other_facts = 49"
  by (simp add: other_facts_def)

lemma population_fact_other: "population_fact \<notin> set other_facts"
  by (simp add: other_facts_def population_fact_def)

lemma us_states_length: "length us_states = 50"
  by (simp add: us_states_def)

lemma census_file_distinct: "distinct (rows (census_file pop pct))"
proof -
  have "inj (\<lambda>f. Str f # Flt NaN # replicate 50 (Str pct))"
    by (simp add: inj_def)
  then have "distinct (map (\<lambda>f. Str f # Flt NaN # replicate 50 (Str pct)) other_facts)"
    by (simp add: distinct_map other_facts_distinct inj_on_def)
  then show ?thesis
    using population_fact_other by (auto simp: census_file_def)
qed

lemma census_file_names:
  "map (\<lambda>r. cell_at r 0) (rows (census_file pop pct)) = Str population_fact # map Str other_facts"
  by (simp add: census_file_def cell_at_def comp_def)

lemma census_file_column:
  "j < 50 \<Longrightarrow>
     map (\<lambda>r. cell_at r (j + 2)) (rows (census_file pop pct)) = Str pop # replicate 49 (Str pct)"
  by (simp add: census_file_def cell_at_def comp_def map_replicate_const other_facts_length)

lemma census_file_labels:
  "map (\<lambda>i. (Str ''State'' # Str population_fact # map Str other_facts) ! i) kept_columns
     = kept_facts"
  by code_simp

lemma select_uniform:
  "map (\<lambda>i. cell_at (a # b # replicate 49 x) i) kept_columns = a # b # replicate 11 x"
  by (simp add: kept_columns_list cell_at_def numeral_eq_Suc)

lemma orient_census_file: "orient (census_file pop pct) = Inr (oriented pop pct)"
proof -
  have cols: "columns (census_file pop pct) = Str ''Fact'' # Str ''Fact Note'' # map Str us_states"
    by (simp add: census_file_def)
  have a: "Str ''Fact'' \<notin> set (map Str us_states)"
    by (simp add: us_states_def)
  have b: "Str ''Fact Note'' \<notin> set (map Str us_states)"
    by (simp add: us_states_def)
  have idx: "Str ''index'' \<notin> set (map (\<lambda>r. cell_at r 0) (rows (census_file pop pct)))"
    unfolding census_file_names by (simp add: population_fact_def other_facts_def)
  have len: "50 \<le> length (rows (census_file pop pct))"
    by (simp add: census_file_def other_facts_length)
  have row: "map (\<lambda>i. cell_at (map Str us_states ! j #
                         map (\<lambda>r. cell_at r (j + 2)) (rows (census_file pop pct))) i) kept_columns
               = Str (us_states ! j) # Str pop # replicate 11 (Str pct)"
    if "j < 50" for j
    using that by (simp only: census_file_column select_uniform) (simp add: us_states_length)
  have rws: "map (\<lambda>j. map (\<lambda>i. cell_at (map Str us_states ! j #
                         map (\<lambda>r. cell_at r (j + 2)) (rows (census_file pop pct))) i) kept_columns)
                [0..<length (map Str us_states)]
               = map (\<lambda>s. Str s # Str pop # replicate 11 (Str pct)) us_states"
  proof -
    have "map (\<lambda>j. map (\<lambda>i. cell_at (map Str us_states ! j #
                         map (\<lambda>r. cell_at r (j + 2)) (rows (census_file pop pct))) i) kept_columns)
                [0..<length (map Str us_states)]
          = map (\<lambda>j. Str (us_states ! j) # Str pop # replicate 11 (Str pct)) [0..<length us_states]"
    proof (rule map_cong)
      show "[0..<length (map Str us_states)] = [0..<length us_states]"
        by simp
    next
      fix j
      assume "j \<in> set [0..<length us_states]"
      then have "j < 50"
        by (simp add: us_states_length)
      then show "map (\<lambda>i. cell_at (map Str us_states ! j #
                         map (\<lambda>r. cell_at r (j + 2)) (rows (census_file pop pct))) i) kept_columns
                   = Str (us_states ! j) # Str pop # replicate 11 (Str pct)"
        by (rule row)
    qed
    also have "\<dots> = map (\<lambda>s. Str s # Str pop # replicate 11 (Str pct)) us_states"
      by (rule nth_equalityI) simp_all
    finally show ?thesis .
  qed
  show ?thesis
    unfolding orient_rectangular [OF cols census_file_distinct a b idx len]
    by (simp only: rws census_file_names census_file_labels oriented_def)
qed

section \<open>De-duplication\<close>

lemma unseen_set: "set (unseen seen xs) = set xs - set seen"
  by (induction xs arbitrary: seen) auto

lemma unseen_is_distinct: "distinct (unseen seen xs)"
  by (induction xs arbitrary: seen) (auto simp: unseen_set)

lemma unseen_length: "length (unseen seen xs) \<le> length xs"
  by (induction xs arbitrary: seen) (auto simp: le_SucI)

lemma drop_duplicates_idem: "drop_duplicates (drop_duplicates xs) = drop_duplicates xs"
  by (simp add: drop_duplicates_def unseen_distinct unseen_is_distinct)

lemma census_drop_duplicates_idem:
  "census_drop_duplicates (census_drop_duplicates df) = census_drop_duplicates df"
  by (simp add: census_drop_duplicates_def drop_duplicates_idem)

lemma split_month_rows:
  "each (split_month L) csv = Inr gun \<Longrightarrow>
     map (\<lambda>g. (state g, totals g)) gun = map (\<lambda>r. (csv_state r, csv_totals r)) csv"
proof (induction csv arbitrary: gun)
  case Nil
  then show ?case by simp
next
  case (Cons r csv)
  then show ?case
    by (auto simp: split_month_def split: sum.splits option.splits prod.splits)
qed

lemma filter_map_pair:
  "map f (filter (\<lambda>g. P (fst (f g))) xs) = filter (\<lambda>p. P (fst p)) (map f xs)"
  by (induction xs) auto

lemma unseen_positions:
  "unseen seen xs
     = map ((!) xs) (filter (\<lambda>i. xs ! i \<notin> set seen \<and> (\<forall>j<i. xs ! j \<noteq> xs ! i)) [0..<length xs])"
proof (induction xs arbitrary: seen)
  case Nil
  then show ?case by simp
next
  case (Cons x xs)
  have u: "[0..<length (x # xs)] = 0 # map Suc [0..<length xs]"
    by (simp add: upt_conv_Cons map_Suc_upt del: upt_Suc)
  have f: "filter (\<lambda>i. xs ! i \<notin> set seen \<and> x \<noteq> xs ! i \<and> (\<forall>j<i. xs ! j \<noteq> xs ! i)) [0..<length xs]
      = filter (\<lambda>i. xs ! i \<notin> set S \<and> (\<forall>j<i. xs ! j \<noteq> xs ! i)) [0..<length xs]"
    if "set S = insert x (set seen) \<or> (x \<in> set seen \<and> S = seen)" for S
    using that by (intro filter_cong) auto
  show ?case
  proof (cases "x \<in> set seen")
    case True
    then show ?thesis
      unfolding u
      by (simp add: Cons.IH filter_map comp_def All_less_Suc2 f [of seen])
  next
    case False
    then show ?thesis
      unfolding u
      by (simp add: Cons.IH filter_map comp_def All_less_Suc2 f [of "x # seen"])
  qed
qed

lemma drop_duplicates_first:
  "drop_duplicates xs = map ((!) xs) (filter (\<lambda>i. \<forall>j<i. xs ! j \<noteq> xs ! i) [0..<length xs])"
  by (simp add: drop_duplicates_def unseen_positions)

text \<open>
  C4, amended. Only the Census table is de-duplicated. Dropping the exact duplicate rows of
  the Census file is the first step of its cleaning: the rows left are pairwise different,
  are the rows of the file, and are no more than before; they are the rows of the file
  that equal no earlier row, in the order of the file; the columns are untouched; and
  cleaning the file is cleaning the de-duplicated file. The background-check table is only
  inspected (the number of duplicates is printed): its cleaned table has one row for every
  row of the file that is not of a territory, duplicates included.
\<close>

theorem census_only_deduplicated:
  "distinct (rows (census_drop_duplicates raw))
   \<and> set (rows (census_drop_duplicates raw)) = set (rows raw)
   \<and> length (rows (census_drop_duplicates raw)) \<le> length (rows raw)
   \<and> rows (census_drop_duplicates raw)
       = map ((!) (rows raw))
           (filter (\<lambda>i. \<forall>j<i. rows raw ! j \<noteq> rows raw ! i) [0..<length (rows raw)])
   \<and> columns (census_drop_duplicates raw) = columns raw
   \<and> clean_census L raw = clean_census L (census_drop_duplicates raw)
   \<and> (clean_gun L csv = Inr gun \<longrightarrow>
        map (\<lambda>g. (state g, totals g)) gun
          = filter (\<lambda>p. fst p \<notin> set territories) (map (\<lambda>r. (csv_state r, csv_totals r)) csv))"
proof -
  have g: "map (\<lambda>g. (state g, totals g)) gun
          = filter (\<lambda>p. fst p \<notin> set territories) (map (\<lambda>r. (csv_state r, csv_totals r)) csv)"
    if "clean_gun L csv = Inr gun"
  proof -
    from that obtain g0 where g0: "each (split_month L) csv = Inr g0"
      and gun: "gun = drop_territories g0"
      by (auto simp: clean_gun_def and_then_Inr_iff)
    have "map (\<lambda>g. (state g, totals g)) (filter (\<lambda>g. fst (state g, totals g) \<notin> set territories) g0)
            = filter (\<lambda>p. fst p \<notin> set territories) (map (\<lambda>g. (state g, totals g)) g0)"
      by (rule filter_map_pair)
    then show ?thesis
      by (simp add: gun drop_territories_def split_month_rows [OF g0])
  qed
  have c: "clean_census L raw = clean_census L (census_drop_duplicates raw)"
    by (simp add: clean_census_def orient_def census_drop_duplicates_idem)
  have k: "rows (census_drop_duplicates raw)
       = map ((!) (rows raw))
           (filter (\<lambda>i. \<forall>j<i. rows raw ! j \<noteq> rows raw ! i) [0..<length (rows raw)])"
    by (simp add: census_drop_duplicates_def drop_duplicates_first)
  have d: "distinct (rows (census_drop_duplicates raw))
   \<and> set (rows (census_drop_duplicates raw)) = set (rows raw)
   \<and> length (rows (census_drop_duplicates raw)) \<le> length (rows raw)
   \<and> columns (census_drop_duplicates raw) = columns raw"
    by (simp add: census_drop_duplicates_def drop_duplicates_def unseen_is_distinct unseen_set
        unseen_length)
  show ?thesis
    using g c k d by blast
qed

lemma dup_eval:
  "clean_gun plain_lib dup_file
     = Inr [\<lparr>month_no = 9, year = 2017, state = ''Alabama'', totals = 100\<rparr>,
            \<lparr>month_no = 9, year = 2017, state = ''Alabama'', totals = 100\<rparr>]"
  by code_simp

lemma dup_sum: "duplicated_sum dup_file = 1"
  by code_simp

theorem census_only_deduplicated_witness:
  "clean_gun plain_lib dup_file = Inr [\<lparr>month_no = 9, year = 2017, state = ''Alabama'', totals = 100\<rparr>, \<lparr>month_no = 9, year = 2017, state = ''Alabama'', totals = 100\<rparr>]
   \<and> map (\<lambda>g. (state g, totals g)) [\<lparr>month_no = 9, year = 2017, state = ''Alabama'', totals = 100\<rparr>, \<lparr>month_no = 9, year = 2017, state = ''Alabama'', totals = 100\<rparr>]
       = filter (\<lambda>p. fst p \<notin> set territories) (map (\<lambda>r. (csv_state r, csv_totals r)) dup_file)
   \<and> distinct (rows (census_drop_duplicates (census_file ''1'' ''2%'')))"
  using census_only_deduplicated [of "census_file ''1'' ''2%''" plain_lib dup_file "[\<lparr>month_no = 9, year = 2017, state = ''Alabama'', totals = 100\<rparr>, \<lparr>month_no = 9, year = 2017, state = ''Alabama'', totals = 100\<rparr>]"]
    dup_eval
  by blast

text \<open>
  C4, as stated, fails for the background-check table: a file with the same row twice has
  one duplicate, and both rows are in the cleaned table.
\<close>

theorem gun_duplicates_survive:
  "duplicated_sum dup_file = 1
   \<and> clean_gun plain_lib dup_file = Inr [\<lparr>month_no = 9, year = 2017, state = ''Alabama'', totals = 100\<rparr>, \<lparr>month_no = 9, year = 2017, state = ''Alabama'', totals = 100\<rparr>]
   \<and> \<not> distinct [\<lparr>month_no = 9, year = 2017, state = ''Alabama'', totals = 100\<rparr>, \<lparr>month_no = 9, year = 2017, state = ''Alabama'', totals = 100\<rparr>]"
  using dup_eval dup_sum by simp

section \<open>Running a cleaning step twice\<close>

lemma replace_cell_idem: "replace_cell (replace_cell c) = replace_cell c"
  by (simp add: replace_cell_def)

lemma replace_Z_idem: "replace_Z (replace_Z df) = replace_Z df"
  by (simp add: replace_Z_def replace_cell_idem comp_def)

lemma percent_first_pass:
  "percent_to_decimal plain_lib (replace_Z (rename_columns (oriented ''4,863,300'' ''50%'')))
     = Inr (percent_table (Flt (Val (1 / 2))))"
  by code_simp

lemma percent_second_pass:
  "percent_to_decimal plain_lib (percent_table (Flt (Val (1 / 2))))
     = Inr (percent_table (Flt (Val (1 / 200))))"
  by code_simp

lemma each_zip_upt:
  "each f (zip [0..<length xs] xs) = Inr ys
     \<longleftrightarrow> length ys = length xs \<and> (\<forall>i<length xs. f (i, xs ! i) = Inr (ys ! i))"
  by (auto simp: each_Inr_iff list_all2_conv_all_nth)

lemma percent_cell_is_float: "percent_cell L c = Inr d \<Longrightarrow> \<exists>x. d = Flt x"
  by (auto simp: percent_cell_def and_then_Inr_iff)

lemma percent_cells_are_floats:
  "each (percent_cell L) cs = Inr ds \<Longrightarrow> list_all (\<lambda>d. \<exists>x. d = Flt x) ds"
  by (auto simp: each_Inr_iff list_all_iff in_set_conv_nth list_all2_conv_all_nth
      dest!: percent_cell_is_float)

lemma percent_cells_again:
  "list_all (\<lambda>c. \<exists>x. c = Flt x) cs \<Longrightarrow>
     \<exists>ds. each (percent_cell L) cs = Inr ds
        \<and> list_all2 (\<lambda>c d. \<exists>x. c = Flt x \<and> d = Flt (flt_div x 100)) cs ds"
proof (induction cs)
  case Nil
  then show ?case by simp
next
  case (Cons c cs)
  then obtain x where c: "c = Flt x" by auto
  from Cons obtain ds where ds: "each (percent_cell L) cs = Inr ds"
    and r: "list_all2 (\<lambda>c d. \<exists>x. c = Flt x \<and> d = Flt (flt_div x 100)) cs ds"
    by auto
  have "percent_cell L c = Inr (Flt (flt_div x 100))"
    by (simp add: c percent_cell_def and_then_def)
  with ds r c show ?case by simp
qed

lemma rebuild_row:
  "length cs = length (drop 2 r) \<Longrightarrow>
     take 2 (take 2 r @ cs) = take 2 r \<and> drop 2 (take 2 r @ cs) = cs"
  by (cases "2 \<le> length r") (auto simp: min_def)

lemma each_length: "each f xs = Inr ys \<Longrightarrow> length ys = length xs"
  by (simp add: each_Inr_iff list_all2_lengthD)

lemma percent_row_first:
  assumes "percent_row L (i, r) = Inr r'"
  shows "if i \<in> set percent_rows
         then take 2 r' = take 2 r \<and> list_all (\<lambda>d. \<exists>x. d = Flt x) (drop 2 r')
         else r' = r"
proof (cases "i \<in> set percent_rows")
  case True
  with assms obtain cs where cs: "each (percent_cell L) (drop 2 r) = Inr cs"
    and r': "r' = take 2 r @ cs"
    by (auto simp: percent_row_def and_then_Inr_iff)
  from rebuild_row [OF each_length [OF cs]] percent_cells_are_floats [OF cs] True
  show ?thesis by (simp add: r')
next
  case False
  with assms show ?thesis by (simp add: percent_row_def)
qed

lemma percent_row_second:
  assumes "if i \<in> set percent_rows then list_all (\<lambda>d. \<exists>x. d = Flt x) (drop 2 r) else True"
  shows "\<exists>r'. percent_row L (i, r) = Inr r'
     \<and> (if i \<in> set percent_rows
         then take 2 r' = take 2 r
              \<and> list_all2 (\<lambda>c d. \<exists>x. c = Flt x \<and> d = Flt (flt_div x 100)) (drop 2 r) (drop 2 r')
         else r' = r)"
proof (cases "i \<in> set percent_rows")
  case True
  with assms have "list_all (\<lambda>d. \<exists>x. d = Flt x) (drop 2 r)" by simp
  from percent_cells_again [OF this, of L] obtain ds
    where ds: "each (percent_cell L) (drop 2 r) = Inr ds"
      and rel: "list_all2 (\<lambda>c d. \<exists>x. c = Flt x \<and> d = Flt (flt_div x 100)) (drop 2 r) ds"
    by auto
  have "percent_row L (i, r) = Inr (take 2 r @ ds)"
    using True ds by (simp add: percent_row_def and_then_def)
  with rebuild_row [OF each_length [OF ds]] rel True show ?thesis by simp
next
  case False
  then show ?thesis by (simp add: percent_row_def)
qed

lemma percent_to_decimal_again:
  assumes "percent_to_decimal L df = Inr t1"
  shows "\<exists>t2. percent_to_decimal L t1 = Inr t2 \<and> columns t2 = columns t1
           \<and> length (rows t2) = length (rows t1)
           \<and> (\<forall>i<length (rows t1).
                 if i \<in> set percent_rows
                 then take 2 (rows t2 ! i) = take 2 (rows t1 ! i)
                      \<and> list_all2 (\<lambda>c d. \<exists>x. c = Flt x \<and> d = Flt (flt_div x 100))
                           (drop 2 (rows t1 ! i)) (drop 2 (rows t2 ! i))
                 else rows t2 ! i = rows t1 ! i)"
proof -
  from assms obtain rs where enough: "list_all (\<lambda>i. i < length (rows df)) percent_rows"
    and rs: "each (percent_row L) (zip [0..<length (rows df)] (rows df)) = Inr rs"
    and t1: "t1 = df\<lparr>rows := rs\<rparr>"
    by (auto simp: percent_to_decimal_def and_then_Inr_iff split: if_splits)
  from rs have len: "length rs = length (rows df)"
    and first: "\<forall>i<length (rows df). percent_row L (i, rows df ! i) = Inr (rs ! i)"
    by (simp_all add: each_zip_upt)
  have fl: "if i \<in> set percent_rows then list_all (\<lambda>d. \<exists>x. d = Flt x) (drop 2 (rs ! i)) else True"
    if "i < length rs" for i
    using percent_row_first [of L i "rows df ! i" "rs ! i"] first that len
    by (auto split: if_splits)
  define nxt where "nxt = (\<lambda>i. SOME r'. percent_row L (i, rs ! i) = Inr r'
     \<and> (if i \<in> set percent_rows
         then take 2 r' = take 2 (rs ! i)
              \<and> list_all2 (\<lambda>c d. \<exists>x. c = Flt x \<and> d = Flt (flt_div x 100)) (drop 2 (rs ! i)) (drop 2 r')
         else r' = rs ! i))"
  have nxt: "percent_row L (i, rs ! i) = Inr (nxt i)
     \<and> (if i \<in> set percent_rows
         then take 2 (nxt i) = take 2 (rs ! i)
              \<and> list_all2 (\<lambda>c d. \<exists>x. c = Flt x \<and> d = Flt (flt_div x 100)) (drop 2 (rs ! i)) (drop 2 (nxt i))
         else nxt i = rs ! i)"
    if "i < length rs" for i
    unfolding nxt_def by (rule someI_ex) (rule percent_row_second [OF fl [OF that]])
  define t2 where "t2 = t1\<lparr>rows := map nxt [0..<length rs]\<rparr>"
  have e2: "each (percent_row L) (zip [0..<length rs] rs) = Inr (map nxt [0..<length rs])"
    using nxt by (simp add: each_zip_upt)
  have p: "percent_to_decimal L t1 = Inr t2"
    using enough e2 by (simp add: percent_to_decimal_def t1 t2_def len and_then_def)
  have c: "columns t2 = columns t1"
    by (simp add: t2_def)
  have l: "length (rows t2) = length (rows t1)"
    by (simp add: t2_def t1)
  have r: "if i \<in> set percent_rows
           then take 2 (rows t2 ! i) = take 2 (rows t1 ! i)
                \<and> list_all2 (\<lambda>c d. \<exists>x. c = Flt x \<and> d = Flt (flt_div x 100))
                     (drop 2 (rows t1 ! i)) (drop 2 (rows t2 ! i))
           else rows t2 ! i = rows t1 ! i"
    if "i < length (rows t1)" for i
  proof -
    from that have i: "i < length rs"
      by (simp add: t1)
    have a: "rows t2 ! i = nxt i"
      using i by (simp add: t2_def)
    have b: "rows t1 ! i = rs ! i"
      by (simp add: t1)
    show ?thesis
      unfolding a b using nxt [OF i] by blast
  qed
  show ?thesis
    using p c l r by blast
qed

text \<open>
  C3, amended. The placeholder substitution and the de-duplication are idempotent. The
  percent conversion is not: on a table it has converted, it succeeds again, leaves the
  labels, the number of rows, the rows outside the listed positions and the first two
  cells of every row as they are, and divides every other cell of the listed rows by 100
  once more.
\<close>

theorem cleaning_steps_twice:
  "replace_Z (replace_Z df) = replace_Z df
   \<and> census_drop_duplicates (census_drop_duplicates df) = census_drop_duplicates df
   \<and> (percent_to_decimal L df = Inr t1 \<longrightarrow>
        (\<exists>t2. percent_to_decimal L t1 = Inr t2 \<and> columns t2 = columns t1
           \<and> length (rows t2) = length (rows t1)
           \<and> (\<forall>i<length (rows t1).
                 if i \<in> set percent_rows
                 then take 2 (rows t2 ! i) = take 2 (rows t1 ! i)
                      \<and> list_all2 (\<lambda>c d. \<exists>x. c = Flt x \<and> d = Flt (flt_div x 100))
                           (drop 2 (rows t1 ! i)) (drop 2 (rows t2 ! i))
                 else rows t2 ! i = rows t1 ! i)))"
  using replace_Z_idem census_drop_duplicates_idem percent_to_decimal_again by blast


theorem cleaning_steps_twice_witness:
  "percent_to_decimal plain_lib (replace_Z (rename_columns (oriented ''4,863,300'' ''50%'')))
     = Inr (percent_table (Flt (Val (1 / 2))))
   \<and> (\<exists>t2. percent_to_decimal plain_lib (percent_table (Flt (Val (1 / 2)))) = Inr t2
          \<and> length (rows t2) = length (rows (percent_table (Flt (Val (1 / 2))))))"
  using cleaning_steps_twice
    [of "replace_Z (rename_columns (oriented ''4,863,300'' ''50%''))" plain_lib
      "percent_table (Flt (Val (1 / 2)))"]
    percent_first_pass
  by blast


text \<open>
  C3, as stated, fails for the percent conversion: the first pass turns 50% into 1/2, the
  second pass turns 1/2 into 1/200.
\<close>

theorem percent_to_decimal_not_idempotent:
  "percent_to_decimal plain_lib (replace_Z (rename_columns (oriented ''4,863,300'' ''50%'')))
     = Inr (percent_table (Flt (Val (1 / 2))))
   \<and> percent_to_decimal plain_lib (percent_table (Flt (Val (1 / 2))))
     = Inr (percent_table (Flt (Val (1 / 200))))
   \<and> percent_table (Flt (Val (1 / 200))) \<noteq> percent_table (Flt (Val (1 / 2)))"
proof -
  have "percent_table (Flt (Val (1 / 200))) \<noteq> percent_table (Flt (Val (1 / 2)))"
    by code_simp
  with percent_first_pass percent_second_pass show ?thesis by simp
qed

section \<open>Failures of the cleaning pass\<close>

lemma and_then_Inl_iff:
  "and_then m f = Inl e \<longleftrightarrow> m = Inl e \<or> (\<exists>x. m = Inr x \<and> f x = Inl e)"
  by (cases m) (auto simp: and_then_def)

lemma each_Inl: "each f xs = Inl e \<Longrightarrow> \<exists>x\<in>set xs. f x = Inl e"
  by (induction xs) (auto split: sum.splits)

lemma orient_no_schema_error: "orient raw \<noteq> Inl (SchemaError c)"
  by (auto simp: orient_def and_then_Inl_iff transpose_promote_def reset_index_def Let_def
      iloc_columns_def split: if_splits)

lemma percent_to_decimal_no_schema_error: "percent_to_decimal L df \<noteq> Inl (SchemaError c)"
proof
  assume "percent_to_decimal L df = Inl (SchemaError c)"
  then have "each (percent_row L) (zip [0..<length (rows df)] (rows df)) = Inl (SchemaError c)"
    by (auto simp: percent_to_decimal_def and_then_Inl_iff split: if_splits)
  then obtain p where "percent_row L p = Inl (SchemaError c)"
    by (auto dest: each_Inl)
  then have "each (percent_cell L) (drop 2 (snd p)) = Inl (SchemaError c)"
    by (auto simp: percent_row_def and_then_Inl_iff split: if_splits)
  then obtain x where "percent_cell L x = Inl (SchemaError c)"
    by (auto dest: each_Inl)
  then show False
    by (cases "strip_percent x")
      (auto simp: percent_cell_def and_then_Inl_iff split: option.splits)
qed

lemma astype_int_no_schema_error: "astype_int L x \<noteq> Inl (SchemaError c)"
  by (cases "(L, x)" rule: astype_int.cases) (auto split: option.splits)

lemma population_to_int_no_schema_error: "population_to_int L df \<noteq> Inl (SchemaError c)"
proof
  assume a: "population_to_int L df = Inl (SchemaError c)"
  then obtain i where
    "each (\<lambda>r. and_then (astype_int L (cell_at r i)) (\<lambda>c. Inr (r[i := c]))) (rows df)
       = Inl (SchemaError c)"
    by (auto simp: population_to_int_def and_then_Inl_iff split: list.splits)
  then obtain r where "and_then (astype_int L (cell_at r i)) (\<lambda>c. Inr (r[i := c])) = Inl (SchemaError c)"
    by (auto dest: each_Inl)
  then show False
    by (auto simp: and_then_Inl_iff astype_int_no_schema_error)
qed

lemma float_column_no_schema_error: "float_column df n \<noteq> Inl (SchemaError c)"
proof
  assume "float_column df n = Inl (SchemaError c)"
  then consider "getitem df n = Inl (SchemaError c)"
    | xs where "each as_float xs = Inl (SchemaError c)"
    by (auto simp: float_column_def and_then_Inl_iff)
  then show False
  proof cases
    case 1
    then show False by (auto simp: getitem_def split: list.splits)
  next
    case 2
    then obtain x where "as_float x = Inl (SchemaError c)" by (auto dest: each_Inl)
    then show False by (cases x) auto
  qed
qed

lemma convert_no_schema_error: "convert L df \<noteq> Inl (SchemaError c)"
  by (auto simp: convert_def and_then_Inl_iff percent_to_decimal_no_schema_error
      population_to_int_no_schema_error float_column_no_schema_error coerce_numeric_def
      white_alone_mean_def reorder_def Let_def split: if_splits)

lemma clean_census_no_schema_error: "clean_census L raw \<noteq> Inl (SchemaError c)"
  by (auto simp: clean_census_def and_then_Inl_iff orient_no_schema_error convert_no_schema_error)

lemma clean_gun_no_schema_error: "clean_gun L csv \<noteq> Inl (SchemaError c)"
proof
  assume "clean_gun L csv = Inl (SchemaError c)"
  then have "each (split_month L) csv = Inl (SchemaError c)"
    by (auto simp: clean_gun_def and_then_Inl_iff)
  then obtain r where "split_month L r = Inl (SchemaError c)"
    by (auto dest: each_Inl)
  then show False
    by (auto simp: split_month_def split: option.splits)
qed

lemma iloc_kept_IndexError:
  "iloc_columns kept_columns df = Inl IndexError \<longleftrightarrow> length (columns df) \<le> 50"
  by (auto simp: iloc_columns_def kept_columns_list)

lemma iloc_kept_wide:
  "50 < length (columns df) \<Longrightarrow> iloc_columns kept_columns df = Inr (take_columns kept_columns df)"
  by (auto simp: iloc_columns_def kept_columns_list)

lemma orient_too_few:
  assumes "length (drop_duplicates (rows raw)) < 50"
  shows "orient raw = Inl IndexError \<or> orient raw = Inl ValueError"
proof (cases "columns raw = []")
  case True
  then show ?thesis
    by (simp add: orient_def transpose_promote_def census_drop_duplicates_def and_then_def)
next
  case False
  define t where "t = \<lparr>columns = map (\<lambda>r. cell_at r 0) (drop_duplicates (rows raw)),
      rows = map (\<lambda>j. map (\<lambda>r. cell_at r j) (drop_duplicates (rows raw))) [0..<length (columns raw)],
      index = columns raw\<rparr>"
  have t: "transpose_promote (census_drop_duplicates raw) = Inr t"
    using False by (simp add: transpose_promote_def census_drop_duplicates_def t_def)
  have ct: "length (columns (drop_leading t)) < 50"
    using assms by (simp add: drop_leading_def Let_def t_def)
  show ?thesis
  proof (cases "reset_index (drop_leading t)")
    case (Inl e)
    then have "e = ValueError"
      by (auto simp: reset_index_def Let_def split: if_splits)
    with Inl show ?thesis
      by (simp add: orient_def t and_then_def)
  next
    case (Inr c)
    then have "length (columns c) = Suc (length (columns (drop_leading t)))"
      by (auto simp: reset_index_def Let_def split: if_splits)
    with ct have "length (columns (rename_State c)) \<le> 50"
      by (simp add: rename_State_def)
    then have "iloc_columns kept_columns (rename_State c) = Inl IndexError"
      by (simp add: iloc_kept_IndexError)
    with Inr show ?thesis
      by (simp add: orient_def t and_then_def)
  qed
qed

lemma orient_too_few_IndexError:
  assumes "length (drop_duplicates (rows raw)) < 50" and "columns raw \<noteq> []"
    and "Str ''index'' \<notin> set (map (\<lambda>r. cell_at r 0) (drop_duplicates (rows raw)))"
  shows "orient raw = Inl IndexError"
proof -
  define t where "t = \<lparr>columns = map (\<lambda>r. cell_at r 0) (drop_duplicates (rows raw)),
      rows = map (\<lambda>j. map (\<lambda>r. cell_at r j) (drop_duplicates (rows raw))) [0..<length (columns raw)],
      index = columns raw\<rparr>"
  have t: "transpose_promote (census_drop_duplicates raw) = Inr t"
    using assms(2) by (simp add: transpose_promote_def census_drop_duplicates_def t_def)
  have "reset_index (drop_leading t) \<noteq> Inl ValueError"
    using assms(3) by (auto simp: reset_index_def drop_leading_def Let_def t_def)
  with orient_too_few [OF assms(1)] show ?thesis
    by (auto simp: orient_def t and_then_def iloc_columns_def split: sum.splits if_splits)
qed

lemma census_short_IndexError: "clean_census L (census_short pop pct) = Inl IndexError"
proof -
  have d: "distinct (rows (census_short pop pct))"
  proof -
    have "inj (\<lambda>f. Str f # Flt NaN # replicate 50 (Str pct))"
      by (simp add: inj_def)
    then have "distinct (map (\<lambda>f. Str f # Flt NaN # replicate 50 (Str pct)) (butlast other_facts))"
      by (simp add: distinct_map other_facts_distinct distinct_butlast inj_on_def)
    then show ?thesis
      using population_fact_other by (auto simp: census_short_def dest: in_set_butlastD)
  qed
  have dd: "drop_duplicates (rows (census_short pop pct)) = rows (census_short pop pct)"
    by (rule drop_duplicates_distinct_id [OF d])
  have l: "length (drop_duplicates (rows (census_short pop pct))) < 50"
    unfolding dd by (simp add: census_short_def other_facts_length)
  have c: "columns (census_short pop pct) \<noteq> []"
    by (simp add: census_short_def)
  have "''index'' \<notin> set other_facts"
    by (simp add: other_facts_def)
  then have i: "Str ''index'' \<notin> set (map (\<lambda>r. cell_at r 0) (drop_duplicates (rows (census_short pop pct))))"
    unfolding dd
    by (auto simp: census_short_def cell_at_def population_fact_def dest: in_set_butlastD)
  show ?thesis
    by (simp add: clean_census_def orient_too_few_IndexError [OF l c i] and_then_def)
qed

text \<open>
  C5, amended. The cleaning pass checks no schema and never raises a SchemaError, for
  either table. The positional selection of the Census columns fails exactly when the
  table has 50 columns or fewer, with pandas' IndexError, which names no column; with more
  than 50 columns it succeeds whatever the labels are. A Census file with fewer than 50
  different rows therefore ends the run with an IndexError (or with the ValueError of
  \<^verbatim>\<open>reset_index\<close>), not with a SchemaError.
\<close>

theorem no_schema_error:
  "(\<forall>c. clean_census L raw \<noteq> Inl (SchemaError c))
   \<and> (\<forall>c. clean_gun L csv \<noteq> Inl (SchemaError c))
   \<and> (iloc_columns kept_columns df = Inl IndexError \<longleftrightarrow> length (columns df) \<le> 50)
   \<and> (50 < length (columns df) \<longrightarrow>
        iloc_columns kept_columns df = Inr (take_columns kept_columns df))
   \<and> (length (drop_duplicates (rows raw)) < 50 \<longrightarrow>
        clean_census L raw = Inl IndexError \<or> clean_census L raw = Inl ValueError)"
proof -
  have "clean_census L raw = Inl IndexError \<or> clean_census L raw = Inl ValueError"
    if "length (drop_duplicates (rows raw)) < 50"
    using orient_too_few [OF that] by (auto simp: clean_census_def and_then_def)
  then show ?thesis
    using clean_census_no_schema_error clean_gun_no_schema_error iloc_kept_IndexError
      iloc_kept_wide
    by blast
qed

theorem no_schema_error_witness:
  "length (drop_duplicates (rows (census_short ''4,863,300'' ''12.5%''))) < 50
   \<and> (clean_census plain_lib (census_short ''4,863,300'' ''12.5%'') = Inl IndexError
        \<or> clean_census plain_lib (census_short ''4,863,300'' ''12.5%'') = Inl ValueError)
   \<and> 50 < length (columns wide)
   \<and> iloc_columns kept_columns wide = Inr (take_columns kept_columns wide)"
proof -
  have a: "length (drop_duplicates (rows (census_short ''4,863,300'' ''12.5%''))) < 50"
  proof -
    have "length (drop_duplicates (rows (census_short ''4,863,300'' ''12.5%'')))
            \<le> length (rows (census_short ''4,863,300'' ''12.5%''))"
      by (simp add: drop_duplicates_def unseen_length)
    also have "\<dots> < 50"
      by (simp add: census_short_def other_facts_length)
    finally show ?thesis .
  qed
  have b: "50 < length (columns wide)"
    by (simp add: wide_def)
  show ?thesis
    using no_schema_error [of plain_lib "census_short ''4,863,300'' ''12.5%''" _ wide] a b
    by blast
qed

text \<open>
  C5, as stated, fails: on the Census file that lacks the fact of the persons in poverty
  the run ends with an IndexError, which is not a SchemaError and names no column.
\<close>

theorem missing_fact_is_IndexError:
  "clean_census plain_lib (census_short ''4,863,300'' ''12.5%'') = Inl IndexError
   \<and> IndexError \<noteq> SchemaError ''Persons in poverty, percent''"
  using census_short_IndexError [of plain_lib "''4,863,300''" "''12.5%''"] by simp

section \<open>The cells of the cleaned Census table\<close>

lemma clean_census_150: "clean_census plain_lib (census_file ''4,863,300'' ''150%'') = Inr (cleaned (Val (3 / 2)))"
  unfolding clean_census_def orient_census_file and_then_def sum.case
  by code_simp

lemma clean_census_125: "clean_census plain_lib (census_file ''4,863,300'' ''12.5%'') = Inr (cleaned (Val (1 / 8)))"
  unfolding clean_census_def orient_census_file and_then_def sum.case
  by code_simp


lemma to_numeric_is_float: "\<exists>x. to_numeric L c = Flt x"
  by (cases c) (auto split: option.splits)

lemma coerce_numeric_table:
  assumes "coerce_numeric L df = Inr out"
  shows "numeric_table out"
proof -
  from assms have out: "out = df\<lparr>rows :=
                  map (\<lambda>r. map (\<lambda>p. if fst p = Str ''state'' then snd p else to_numeric L (snd p))
                             (zip (columns df) r))
                    (rows df)\<rparr>"
    by (auto simp: coerce_numeric_def split: if_splits)
  have "\<exists>x. cell_at (map (\<lambda>p. if fst p = Str ''state'' then snd p else to_numeric L (snd p))
                          (zip (columns df) r)) i = Flt x"
    if "i < length (columns df)" and "columns df ! i \<noteq> Str ''state''" for r i
    using that to_numeric_is_float [of L "r ! i"] by (simp add: cell_at_def)
  then show ?thesis
    by (auto simp: numeric_table_def out)
qed

lemma take_columns_numeric:
  assumes "numeric_table df" and "\<forall>i\<in>set ps. i < length (columns df)"
  shows "numeric_table (take_columns ps df)"
proof -
  have "\<exists>x. cell_at (map (\<lambda>i. cell_at r i) ps) k = Flt x"
    if "r \<in> set (rows df)" and "k < length ps" and "columns df ! (ps ! k) \<noteq> Str ''state''" for r k
  proof -
    have "ps ! k < length (columns df)"
      using assms(2) that(2) by simp
    with assms(1) that(1,3) have "\<exists>x. cell_at r (ps ! k) = Flt x"
      by (simp add: numeric_table_def)
    with that(2) show ?thesis
      by (simp add: cell_at_def)
  qed
  then show ?thesis
    by (auto simp: numeric_table_def take_columns_def)
qed

lemma drop_column_numeric: "numeric_table df \<Longrightarrow> numeric_table (drop_column n df)"
  unfolding drop_column_def by (rule take_columns_numeric) auto

lemma positions_bound: "i \<in> set (positions x xs) \<Longrightarrow> i < length xs"
  by (simp add: positions_def)

lemma append_float_numeric:
  assumes "numeric_table df"
  shows "numeric_table \<lparr>columns = columns df @ [c], rows = map (\<lambda>p. fst p @ [Flt (f p)]) (zip (rows df) ys)\<rparr>"
proof -
  have "length (r @ [Flt v]) \<le> length (columns df @ [c])
      \<and> (\<forall>i<length (columns df @ [c]). (columns df @ [c]) ! i \<noteq> Str ''state''
            \<longrightarrow> (\<exists>x. cell_at (r @ [Flt v]) i = Flt x))"
    if r: "r \<in> set (rows df)" for r v
  proof -
    from assms r have len: "length r \<le> length (columns df)"
      and fl: "\<forall>i<length (columns df). columns df ! i \<noteq> Str ''state'' \<longrightarrow> (\<exists>x. cell_at r i = Flt x)"
      by (auto simp: numeric_table_def)
    have "\<exists>x. cell_at (r @ [Flt v]) i = Flt x"
      if "i < length (columns df @ [c])" and "(columns df @ [c]) ! i \<noteq> Str ''state''" for i
    proof (cases "i < length r")
      case True
      with len have "i < length (columns df)" by simp
      with that(2) fl have "\<exists>x. cell_at r i = Flt x"
        by (simp add: nth_append)
      with True show ?thesis
        by (simp add: cell_at_def nth_append)
    next
      case False
      then show ?thesis
        by (cases "i = length r") (simp_all add: cell_at_def nth_append)
    qed
    with len show ?thesis by simp
  qed
  then show ?thesis
    by (auto simp: numeric_table_def dest!: set_zip_leftD)
qed

lemma white_alone_mean_numeric:
  assumes "numeric_table df" and "white_alone_mean df = Inr out"
  shows "numeric_table out"
proof -
  from assms(2) obtain a b where
    out: "out = drop_column ''white_alone_non_hispanic'' (drop_column ''white_alone''
              \<lparr>columns = columns df @ [Str ''white_alone_mean''],
               rows = map (\<lambda>p. fst p @ [Flt (flt_div (flt_add (fst (snd p)) (snd (snd p))) 2)])
                        (zip (rows df) (zip a b))\<rparr>)"
    by (auto simp: white_alone_mean_def and_then_Inr_iff)
  show ?thesis
    unfolding out
    by (intro drop_column_numeric append_float_numeric assms(1))
qed

lemma reorder_numeric:
  assumes "numeric_table df" and "reorder df = Inr out"
  shows "numeric_table out"
proof -
  from assms(2) obtain ps where out: "out = take_columns ps df"
    and ps: "ps = filter (\<lambda>i. columns df ! i \<notin> set (map Str last_columns)) [0..<length (columns df)]
                 @ concat (map (\<lambda>n. positions (Str n) (columns df)) last_columns)"
    by (auto simp: reorder_def Let_def split: if_splits)
  have "\<forall>i\<in>set ps. i < length (columns df)"
    by (auto simp: ps dest: positions_bound)
  with assms(1) show ?thesis
    unfolding out by (rule take_columns_numeric)
qed

lemma clean_census_numeric:
  assumes "clean_census L raw = Inr out"
  shows "numeric_table out"
proof -
  from assms obtain c5 c6 c7 where c: "coerce_numeric L c5 = Inr c6"
    and w: "white_alone_mean c6 = Inr c7" and r: "reorder c7 = Inr out"
    by (auto simp: clean_census_def convert_def and_then_Inr_iff)
  from coerce_numeric_table [OF c] w have "numeric_table c7"
    by (rule white_alone_mean_numeric)
  then show ?thesis
    using r by (rule reorder_numeric)
qed

lemma percent_cell_range:
  assumes "percent_cell L (Str s) = Inr (Flt (Val q))"
  shows "\<exists>v. py_float L (filter (\<lambda>c. c \<noteq> CHR ''%'') s) = Some (Val v) \<and> q = v / 100
           \<and> (0 \<le> q \<and> q \<le> 1 \<longleftrightarrow> 0 \<le> v \<and> v \<le> 100)"
proof -
  from assms obtain w where w: "py_float L (filter (\<lambda>c. c \<noteq> CHR ''%'') s) = Some w"
    and q: "flt_div w 100 = Val q"
    by (auto simp: percent_cell_def and_then_Inr_iff split: option.splits)
  from q obtain v where "w = Val v" and "q = v / 100"
    by (cases w) auto
  with w show ?thesis by auto
qed

lemma cleaned_poverty:
  "columns (cleaned v) ! 11 = Str ''persons_in_poverty''
   \<and> rows (cleaned v) ! 0 \<in> set (rows (cleaned v))
   \<and> 11 < length (columns (cleaned v))
   \<and> cell_at (rows (cleaned v) ! 0) 11 = Flt v"
  by code_simp

text \<open>
  C7, amended. After a cleaning pass that succeeds, every value of every column but
  \<^verbatim>\<open>state\<close> (the demographic, education and poverty fields among them) is a float or the
  missing-value marker, and none is a string: no percent sign and no placeholder is left.
  The values are not checked against the range from 0 to 1: the percent conversion turns
  a text into the number \<^verbatim>\<open>float\<close> reads from it without its percent signs, divided by
  100, which lies between 0 and 1 exactly when that number lies between 0 and 100.
\<close>

theorem cleaned_cells_are_floats:
  assumes "clean_census L raw = Inr out"
  shows "(\<forall>r\<in>set (rows out). \<forall>i<length (columns out).
            columns out ! i \<noteq> Str ''state''
            \<longrightarrow> (\<exists>x. cell_at r i = Flt x) \<and> (\<forall>s. cell_at r i \<noteq> Str s))
     \<and> (\<forall>s q. percent_cell L (Str s) = Inr (Flt (Val q)) \<longrightarrow>
           (\<exists>v. py_float L (filter (\<lambda>c. c \<noteq> CHR ''%'') s) = Some (Val v) \<and> q = v / 100
               \<and> (0 \<le> q \<and> q \<le> 1 \<longleftrightarrow> 0 \<le> v \<and> v \<le> 100)))"
proof -
  from clean_census_numeric [OF assms]
  have "\<forall>r\<in>set (rows out). \<forall>i<length (columns out).
            columns out ! i \<noteq> Str ''state'' \<longrightarrow> (\<exists>x. cell_at r i = Flt x)"
    by (simp add: numeric_table_def)
  then have "\<forall>r\<in>set (rows out). \<forall>i<length (columns out).
            columns out ! i \<noteq> Str ''state''
            \<longrightarrow> (\<exists>x. cell_at r i = Flt x) \<and> (\<forall>s. cell_at r i \<noteq> Str s)"
    by fastforce
  with percent_cell_range show ?thesis
    by blast
qed

theorem cleaned_cells_are_floats_witness:
  "clean_census plain_lib (census_file ''4,863,300'' ''12.5%'') = Inr (cleaned (Val (1 / 8)))
   \<and> columns (cleaned (Val (1 / 8))) ! 11 = Str ''persons_in_poverty''
   \<and> (\<exists>x. cell_at (rows (cleaned (Val (1 / 8))) ! 0) 11 = Flt x)
   \<and> cell_at (rows (cleaned (Val (1 / 8))) ! 0) 11 = Flt (Val (1 / 8))"
proof -
  have ne: "columns (cleaned (Val (1 / 8))) ! 11 \<noteq> Str ''state''"
    using cleaned_poverty [of "Val (1 / 8)"] by simp
  have "\<exists>x. cell_at (rows (cleaned (Val (1 / 8))) ! 0) 11 = Flt x"
    using cleaned_cells_are_floats [OF clean_census_125] cleaned_poverty [of "Val (1 / 8)"] ne
    by blast
  then show ?thesis
    using clean_census_125 cleaned_poverty [of "Val (1 / 8)"] by blast
qed

text \<open>
  C7, as stated, fails: nothing keeps the values between 0 and 1. A file that says 150%
  has the share of persons in poverty 3/2 after cleaning.
\<close>

theorem cleaned_value_above_one:
  "clean_census plain_lib (census_file ''4,863,300'' ''150%'') = Inr (cleaned (Val (3 / 2)))
   \<and> columns (cleaned (Val (3 / 2))) ! 11 = Str ''persons_in_poverty''
   \<and> cell_at (rows (cleaned (Val (3 / 2))) ! 0) 11 = Flt (Val (3 / 2))
   \<and> \<not> (3 / 2 \<le> (1 :: rat))"
  using clean_census_150 cleaned_poverty [of "Val (3 / 2)"] by simp

end
